theory Spec2Isabelle
  imports Main
begin

section \<open>The payout transaction state machine\<close>

text \<open>
  Source: \<^verbatim>\<open>src/lib/actions/transaction-india.actions.ts\<close>.

  \<^verbatim>\<open>TransactionState\<close> is a TypeScript union of eleven string literals. The union is
  erased at run time and the code casts processor statuses into it
  (\<^verbatim>\<open>razorpayPayout.status as TransactionState\<close>), so a stored state is modelled as what
  it is at run time: a string. The eleven members are listed in
  \<open>TransactionState_values\<close>.
\<close>

type_synonym TransactionState = string

definition TransactionState_values :: "TransactionState list" where
  "TransactionState_values =
     [''initiated'', ''submitted'', ''queued'', ''pending'', ''processing'', ''completed'',
      ''failed'', ''reversed'', ''cancelled'', ''refund_pending'', ''refund_completed'']"

text \<open>\<^verbatim>\<open>VALID_TRANSITIONS\<close>: an object literal, key = current state, value = next states.\<close>

definition VALID_TRANSITIONS :: "(TransactionState \<times> TransactionState list) list" where
  "VALID_TRANSITIONS =
     [(''initiated'', [''submitted'', ''queued'', ''pending'', ''failed'', ''cancelled'']),
      (''submitted'', [''queued'', ''pending'', ''failed'', ''cancelled'']),
      (''queued'', [''pending'', ''processing'', ''cancelled'', ''failed'']),
      (''pending'', [''processing'', ''completed'', ''failed'', ''reversed'']),
      (''processing'', [''completed'', ''failed'', ''reversed'']),
      (''completed'', [''reversed'', ''refund_pending'']),
      (''failed'', []),
      (''reversed'', []),
      (''cancelled'', []),
      (''refund_pending'', [''refund_completed'', ''failed'']),
      (''refund_completed'', [])]"

text \<open>
  \<^verbatim>\<open>VALID_TRANSITIONS[fromState]\<close> on a key the literal does not own is \<^verbatim>\<open>undefined\<close>,
  except for the property names every object inherits from \<^verbatim>\<open>Object.prototype\<close>: there
  the lookup yields a function (or the prototype object), which has no \<^verbatim>\<open>includes\<close>
  method, and the call \<^verbatim>\<open>validNextStates?.includes(toState)\<close> throws a TypeError.
\<close>

definition Object_prototype_properties :: "string list" where
  "Object_prototype_properties =
     [''constructor'', ''__defineGetter__'', ''__defineSetter__'', ''hasOwnProperty'',
      ''__lookupGetter__'', ''__lookupSetter__'', ''isPrototypeOf'', ''propertyIsEnumerable'',
      ''toString'', ''valueOf'', ''__proto__'', ''toLocaleString'']"

definition TypeError_includes :: string where
  "TypeError_includes = ''validNextStates?.includes is not a function''"

text \<open>
  \<^verbatim>\<open>isValidTransition\<close>: \<^verbatim>\<open>VALID_TRANSITIONS[fromState]?.includes(toState) ?? false\<close>.
  \<open>Inl\<close> is the thrown error's message, \<open>Inr\<close> the returned boolean.
\<close>

definition isValidTransition :: "TransactionState \<Rightarrow> TransactionState \<Rightarrow> string + bool" where
  "isValidTransition fromState toState =
     (case map_of VALID_TRANSITIONS fromState of
        Some validNextStates \<Rightarrow> Inr (toState \<in> set validNextStates)
      | None \<Rightarrow>
          if fromState \<in> set Object_prototype_properties then Inl TypeError_includes
          else Inr False)"

text \<open>\<^verbatim>\<open>TERMINAL_STATES\<close> and \<^verbatim>\<open>isTerminalState\<close> (\<^verbatim>\<open>Array.prototype.includes\<close>).\<close>

definition TERMINAL_STATES :: "TransactionState list" where
  "TERMINAL_STATES = [''completed'', ''failed'', ''reversed'', ''cancelled'', ''refund_completed'']"

definition isTerminalState :: "TransactionState \<Rightarrow> bool" where
  "isTerminalState state = (state \<in> set TERMINAL_STATES)"

text \<open>
  The transition table and the terminal-state set as the specification words them
  (section 4.1), for comparison with the tables of the source.
\<close>

definition spec_transition_table :: "(TransactionState \<times> TransactionState) set" where
  "spec_transition_table =
     {(''initiated'', ''submitted''), (''initiated'', ''queued''), (''initiated'', ''pending''),
      (''initiated'', ''failed''), (''initiated'', ''cancelled''),
      (''submitted'', ''queued''), (''submitted'', ''pending''), (''submitted'', ''failed''),
      (''submitted'', ''cancelled''),
      (''queued'', ''pending''), (''queued'', ''processing''), (''queued'', ''cancelled''),
      (''queued'', ''failed''),
      (''pending'', ''processing''), (''pending'', ''completed''), (''pending'', ''failed''),
      (''pending'', ''reversed''),
      (''processing'', ''completed''), (''processing'', ''failed''), (''processing'', ''reversed''),
      (''completed'', ''reversed''), (''completed'', ''refund_pending''),
      (''refund_pending'', ''refund_completed''), (''refund_pending'', ''failed'')}"

definition spec_terminal_states :: "TransactionState set" where
  "spec_terminal_states = {''failed'', ''reversed'', ''cancelled'', ''refund_completed''}"

section \<open>Data model\<close>

text \<open>
  The records of \<^verbatim>\<open>src/types/index.d.ts\<close> that the payout core reads or writes. An
  optional or nullable field is an \<open>option\<close>. Amounts are integers (paise); timestamps are
  integers (milliseconds, \<^verbatim>\<open>Date.now()\<close>). \<^verbatim>\<open>stateHistory\<close> is a JSON string in the
  source, always produced by \<^verbatim>\<open>JSON.stringify\<close> of the array read back with
  \<^verbatim>\<open>JSON.parse\<close>; it is modelled as the array itself. The display-only fields of a
  transaction (\<^verbatim>\<open>type\<close>, \<^verbatim>\<open>currency\<close>, the beneficiary fields, \<^verbatim>\<open>failureReason\<close>,
  \<^verbatim>\<open>metadata\<close>) are written once at creation, never read by the core, and left out.
\<close>

datatype TransitionSource = SourceUser | SourceSystem | SourceWebhook | SourceReconciliation

datatype PayoutMode = NEFT | RTGS | IMPS | UPI | card

type_synonym Metadata = "(string \<times> string option) list"

record StateTransition =
  fromState :: TransactionState
  toState :: TransactionState
  timestamp :: int
  reason :: "string option"
  source :: TransitionSource
  metadata :: "Metadata option"

record IndianTransaction =
  userId :: string
  transactionId :: string
  idempotencyKey :: string
  razorpayPayoutId :: "string option"
  razorpayContactId :: "string option"
  razorpayFundAccountId :: "string option"
  state :: TransactionState
  previousState :: "TransactionState option"
  stateHistory :: "StateTransition list"
  amount :: int
  mode :: PayoutMode
  purpose :: string
  narration :: "string option"
  utr :: "string option"
  razorpayFees :: "int option"
  razorpayTax :: "int option"
  failureDescription :: "string option"
  retryCount :: nat
  maxRetries :: nat
  nextRetryAt :: "int option"
  createdAt :: int
  updatedAt :: int
  submittedAt :: "int option"
  completedAt :: "int option"
  failedAt :: "int option"

text \<open>\<^verbatim>\<open>RazorpayPayout\<close>, the processor's payout entity (fields the core reads).\<close>

record RazorpayPayout =
  payout_id :: string
  payout_status :: string
  payout_utr :: "string option"
  payout_fees :: int
  payout_tax :: int
  payout_reference_id :: "string option"
  payout_failure_reason :: "string option"
  payout_status_details :: "string option"

text \<open>\<^verbatim>\<open>CreatePayoutRequest\<close>, the argument of \<^verbatim>\<open>createPayout\<close>.\<close>

record CreatePayoutRequest =
  account_number :: string
  fund_account_id :: "string option"
  req_amount :: int
  req_mode :: PayoutMode
  req_purpose :: string
  queue_if_low_balance :: bool
  reference_id :: string
  req_narration :: "string option"
  req_notes :: "(string \<times> string) list"

record RazorpayWebhookEvent =
  account_id :: string
  event :: string
  payload_payout :: "RazorpayPayout option"
  created_at :: int

record WebhookEventRecord =
  eventId :: string
  eventType :: string
  payloadHash :: string
  processed :: bool
  event_createdAt :: int
  processedAt :: "int option"
  event_transactionId :: "string option"
  event_error :: "string option"

record RazorpayFundAccountRecord =
  fa_userId :: string
  fa_razorpayFundAccountId :: string
  fa_razorpayContactId :: string
  fa_accountHolderName :: "string option"
  fa_vpaAddress :: "string option"
  fa_active :: bool

text \<open>
  Scope of the model. Each exported action is a function from the store before the call
  to the store after it and the value returned, for a run with no other writer in
  between (the one exception is \<open>transitionState_at\<close> below, which separates the read
  from the write). The database answers every request; the only database error modelled
  is an update of an id that is not stored. All readings of \<^verbatim>\<open>Date.now()\<close> within one
  call are one value, the argument \<open>now\<close>.
\<close>

text \<open>
  The document store. A collection is the list of its documents in insertion order; a
  document's \<^verbatim>\<open>$id\<close> is its position in the list (the core never deletes a document, and
  Appwrite's ids are unique). \<open>payout_calls\<close> is the log of the calls made to the
  processor's \<^verbatim>\<open>createPayout\<close>, oldest first.
\<close>

record world =
  transactions_india :: "IndianTransaction list"
  webhook_events :: "WebhookEventRecord list"
  razorpay_fund_accounts :: "(string \<times> RazorpayFundAccountRecord) list"
  payout_calls :: "CreatePayoutRequest list"

text \<open>
  What the core calls outside the repository. \<open>createPayout\<close> and \<open>getPayout\<close> are the
  processor: \<open>Inl\<close> is the message of the error thrown, \<open>Inr\<close> the payout returned; the
  answer to a creation call may depend on every call made before it. The signature check
  (\<open>None\<close>: it throws, the webhook secret is not configured), the JSON parser (\<open>None\<close>:
  it throws) and SHA-256 in hexadecimal are library code and are parameters.
\<close>

record env =
  createPayout :: "CreatePayoutRequest list \<Rightarrow> CreatePayoutRequest \<Rightarrow> string + RazorpayPayout"
  getPayout :: "string \<Rightarrow> string + RazorpayPayout"
  verifyWebhookSignature :: "string \<Rightarrow> string \<Rightarrow> bool option"
  JSON_parse :: "string \<Rightarrow> RazorpayWebhookEvent option"
  sha256_hex :: "string \<Rightarrow> string"
  RAZORPAY_ACCOUNT_NUMBER :: string

subsection \<open>Store primitives\<close>

text \<open>
  \<^verbatim>\<open>listDocuments(..., [query, Query.limit(1)])\<close>: the first matching document with its
  \<^verbatim>\<open>$id\<close>, or nothing. \<^verbatim>\<open>updateDocument\<close> merges the given fields into the document stored
  under the id at the time of the call, and throws for an id that is not stored.
\<close>

definition listFirst :: "('a \<Rightarrow> bool) \<Rightarrow> 'a list \<Rightarrow> (nat \<times> 'a) option" where
  "listFirst P docs = List.find (\<lambda>(i, d). P d) (List.enumerate 0 docs)"

definition DocumentNotFound :: string where
  "DocumentNotFound = ''Document with the requested ID could not be found.''"

definition updateDocument :: "'a list \<Rightarrow> nat \<Rightarrow> ('a \<Rightarrow> 'a) \<Rightarrow> 'a list option" where
  "updateDocument docs i f = (if i < length docs then Some (docs[i := f (docs ! i)]) else None)"

text \<open>JavaScript truthiness of an optional string: absent, null and the empty string are falsy.\<close>

definition truthy :: "string option \<Rightarrow> bool" where
  "truthy s = (case s of None \<Rightarrow> False | Some v \<Rightarrow> v \<noteq> [])"

text \<open>
  Decimal printing: \<^verbatim>\<open>String(n)\<close> for a retry count and \<^verbatim>\<open>created_at.toString()\<close> for
  an integer timestamp.
\<close>

definition decimal_digit :: "int \<Rightarrow> char" where
  "decimal_digit k = ''0123456789'' ! nat (k mod 10)"

function decimal :: "int \<Rightarrow> string" where
  "decimal i =
     (if i div 10 \<le> 0 then [decimal_digit i]
      else decimal (i div 10) @ [decimal_digit i])"
  by pat_completeness auto
termination
  by (relation "measure nat") auto

definition String_nat :: "nat \<Rightarrow> string" where
  "String_nat n = decimal (int n)"

definition toString_int :: "int \<Rightarrow> string" where
  "toString_int i = (if 0 \<le> i then decimal i else CHR ''-'' # decimal (- i))"

section \<open>State transition action\<close>

text \<open>
  \<^verbatim>\<open>transitionState\<close> has two database steps with an \<^verbatim>\<open>await\<close> between them: it reads
  the transaction by \<^verbatim>\<open>transactionId\<close>, validates the transition against the state it
  read and builds \<^verbatim>\<open>updateData\<close>; then it calls \<^verbatim>\<open>updateDocument\<close> with the id it read.
  The caller's \<^verbatim>\<open>source\<close> (default \<^verbatim>\<open>'system'\<close>) is always given here.
  \<open>transitionState_read\<close> is the first step, \<open>transitionState_at\<close> runs the second step on
  the store as it is at write time, and \<open>transitionState\<close> is the run with no other
  writer in between.
\<close>

record TransitionParams =
  tp_transactionId :: string
  tp_newState :: TransactionState
  tp_reason :: "string option"
  tp_source :: TransitionSource
  tp_metadata :: "Metadata option"

definition transitionState_updateData ::
  "IndianTransaction \<Rightarrow> TransitionParams \<Rightarrow> int \<Rightarrow> IndianTransaction \<Rightarrow> IndianTransaction" where
  "transitionState_updateData transaction params now =
     (let currentState = state transaction;
          newState = tp_newState params;
          history = stateHistory transaction @
            [\<lparr>fromState = currentState, toState = newState, timestamp = now,
              reason = tp_reason params, source = tp_source params,
              metadata = tp_metadata params\<rparr>]
      in (\<lambda>doc.
        let doc1 = doc\<lparr>state := newState, previousState := Some currentState,
                       stateHistory := history, updatedAt := now\<rparr>
        in if newState = ''completed'' \<or> newState = ''refund_completed''
           then doc1\<lparr>completedAt := Some now\<rparr>
           else if newState \<in> set [''failed'', ''reversed'', ''cancelled'']
           then (if truthy (tp_reason params)
                 then doc1\<lparr>failedAt := Some now, failureDescription := tp_reason params\<rparr>
                 else doc1\<lparr>failedAt := Some now\<rparr>)
           else doc1))"

definition transitionState_read ::
  "world \<Rightarrow> int \<Rightarrow> TransitionParams
     \<Rightarrow> string + (nat \<times> (IndianTransaction \<Rightarrow> IndianTransaction))" where
  "transitionState_read w now params =
     (case listFirst (\<lambda>d. transactionId d = tp_transactionId params) (transactions_india w) of
        None \<Rightarrow> Inl ''Transaction not found''
      | Some (i, transaction) \<Rightarrow>
          (case isValidTransition (state transaction) (tp_newState params) of
             Inl message \<Rightarrow> Inl message
           | Inr False \<Rightarrow>
               Inl (''Invalid state transition from '' @ state transaction @ '' to ''
                    @ tp_newState params)
           | Inr True \<Rightarrow> Inr (i, transitionState_updateData transaction params now)))"

definition transitionState_at ::
  "world \<Rightarrow> world \<Rightarrow> int \<Rightarrow> TransitionParams \<Rightarrow> world \<times> (string + IndianTransaction)" where
  "transitionState_at w_read w_write now params =
     (case transitionState_read w_read now params of
        Inl message \<Rightarrow> (w_write, Inl message)
      | Inr (i, updateData) \<Rightarrow>
          (case updateDocument (transactions_india w_write) i updateData of
             None \<Rightarrow> (w_write, Inl DocumentNotFound)
           | Some docs \<Rightarrow> (w_write\<lparr>transactions_india := docs\<rparr>, Inr (docs ! i))))"

definition transitionState ::
  "world \<Rightarrow> int \<Rightarrow> TransitionParams \<Rightarrow> world \<times> (string + IndianTransaction)" where
  "transitionState w now params = transitionState_at w w now params"

section \<open>Retry scheduler\<close>

text \<open>\<^verbatim>\<open>RETRY_CONFIG\<close>.\<close>

definition RETRY_CONFIG_maxRetries :: nat where
  "RETRY_CONFIG_maxRetries = 3"

definition RETRY_CONFIG_initialDelayMs :: int where
  "RETRY_CONFIG_initialDelayMs = 60000"

definition RETRY_CONFIG_maxDelayMs :: int where
  "RETRY_CONFIG_maxDelayMs = 3600000"

definition RETRY_CONFIG_backoffMultiplier :: int where
  "RETRY_CONFIG_backoffMultiplier = 2"

text \<open>
  \<^verbatim>\<open>calculateRetryDelay\<close>. The source computes in doubles; for a retry count that is a
  natural number the product is an exact integer as long as it is below the cap, and
  above it (also when \<^verbatim>\<open>Math.pow\<close> overflows to infinity) the minimum is the cap.
\<close>

definition calculateRetryDelay :: "nat \<Rightarrow> int" where
  "calculateRetryDelay retryCount' =
     (let delay = RETRY_CONFIG_initialDelayMs * RETRY_CONFIG_backoffMultiplier ^ retryCount'
      in min delay RETRY_CONFIG_maxDelayMs)"

text \<open>
  \<^verbatim>\<open>getTransactionsForRetry\<close>: state submitted or failed, \<^verbatim>\<open>nextRetryAt <= now\<close> (a null
  field matches no comparison), \<^verbatim>\<open>retryCount < maxRetries\<close>, at most 50 documents.
\<close>

definition getTransactionsForRetry :: "world \<Rightarrow> int \<Rightarrow> IndianTransaction list" where
  "getTransactionsForRetry w now =
     take 50 (filter
       (\<lambda>d. state d \<in> set [''submitted'', ''failed'']
            \<and> (case nextRetryAt d of None \<Rightarrow> False | Some due \<Rightarrow> due \<le> now)
            \<and> retryCount d < RETRY_CONFIG_maxRetries)
       (transactions_india w))"

record RetryResult =
  rr_success :: bool
  rr_newState :: "TransactionState option"
  rr_error :: "string option"

definition retry_error :: "string \<Rightarrow> RetryResult" where
  "retry_error message = \<lparr>rr_success = False, rr_newState = None, rr_error = Some message\<rparr>"

text \<open>The two guards of \<^verbatim>\<open>retryTransaction\<close>: state and retry count.\<close>

definition retryable :: "IndianTransaction \<Rightarrow> bool" where
  "retryable t = (state t \<in> set [''submitted'', ''failed''] \<and> retryCount t < RETRY_CONFIG_maxRetries)"

text \<open>The argument \<^verbatim>\<open>retryTransaction\<close> passes to \<^verbatim>\<open>createPayout\<close>.\<close>

definition retry_request :: "env \<Rightarrow> IndianTransaction \<Rightarrow> string \<Rightarrow> nat \<Rightarrow> CreatePayoutRequest" where
  "retry_request e transaction transactionId' newRetryCount =
     \<lparr>account_number = RAZORPAY_ACCOUNT_NUMBER e,
      fund_account_id = razorpayFundAccountId transaction,
      req_amount = amount transaction,
      req_mode = mode transaction,
      req_purpose = purpose transaction,
      queue_if_low_balance = True,
      reference_id = idempotencyKey transaction,
      req_narration = (if truthy (narration transaction) then narration transaction else None),
      req_notes = [(''transactionId'', transactionId'), (''retry'', String_nat newRetryCount)]\<rparr>"

text \<open>
  \<^verbatim>\<open>createPayout\<close> of the Razorpay wrapper sends the request it is given, with
  \<^verbatim>\<open>reference_id: params.reference_id || `payout_...`\<close>: a key minted from the clock
  and \<^verbatim>\<open>Math.random\<close> (here the argument \<open>minted\<close>) replaces an empty reference only.
\<close>

definition createPayout_requestBody :: "CreatePayoutRequest \<Rightarrow> string \<Rightarrow> CreatePayoutRequest" where
  "createPayout_requestBody params minted =
     params\<lparr>reference_id := (if reference_id params = [] then minted else reference_id params)\<rparr>"

text \<open>The document update after a successful resubmission.\<close>

definition retry_success_update ::
  "IndianTransaction \<Rightarrow> RazorpayPayout \<Rightarrow> nat \<Rightarrow> int \<Rightarrow> IndianTransaction \<Rightarrow> IndianTransaction" where
  "retry_success_update transaction razorpayPayout newRetryCount now =
     (let newState = (if payout_status razorpayPayout = ''processed'' then ''completed''
                      else payout_status razorpayPayout);
          history = stateHistory transaction @
            [\<lparr>fromState = state transaction, toState = newState, timestamp = now,
              reason = Some (''Retry '' @ String_nat newRetryCount),
              source = SourceSystem,
              metadata = Some [(''razorpayPayoutId'', Some (payout_id razorpayPayout))]\<rparr>]
      in (\<lambda>doc.
        let doc1 = doc\<lparr>razorpayPayoutId := Some (payout_id razorpayPayout),
                       state := newState,
                       previousState := Some (state transaction),
                       stateHistory := history,
                       retryCount := newRetryCount,
                       utr := payout_utr razorpayPayout,
                       razorpayFees := Some (payout_fees razorpayPayout),
                       razorpayTax := Some (payout_tax razorpayPayout),
                       updatedAt := now\<rparr>
        in if newState = ''completed'' then doc1\<lparr>completedAt := Some now\<rparr> else doc1))"

text \<open>The document update after a failed resubmission (the \<^verbatim>\<open>catch (payoutError)\<close> block).\<close>

definition retry_failure_update ::
  "IndianTransaction \<Rightarrow> string \<Rightarrow> nat \<Rightarrow> int \<Rightarrow> IndianTransaction \<Rightarrow> IndianTransaction" where
  "retry_failure_update transaction message newRetryCount now =
     (let nextRetryAt' = now + calculateRetryDelay newRetryCount;
          failedPermanently = (newRetryCount \<ge> RETRY_CONFIG_maxRetries);
          history = stateHistory transaction @
            [\<lparr>fromState = state transaction,
              toState = (if failedPermanently then ''failed'' else state transaction),
              timestamp = now,
              reason = Some (''Retry '' @ String_nat newRetryCount @ '' failed: '' @ message),
              source = SourceSystem,
              metadata = None\<rparr>]
      in (\<lambda>doc.
        let doc1 = doc\<lparr>retryCount := newRetryCount,
                       nextRetryAt := (if failedPermanently then None else Some nextRetryAt'),
                       state := (if failedPermanently then ''failed'' else state transaction),
                       stateHistory := history,
                       failureDescription := Some message,
                       updatedAt := now\<rparr>
        in if failedPermanently then doc1\<lparr>failedAt := Some now\<rparr> else doc1))"

text \<open>
  \<^verbatim>\<open>retryTransaction\<close>. Every call of \<^verbatim>\<open>createPayout\<close> is appended to \<open>payout_calls\<close>.
  A throwing \<^verbatim>\<open>updateDocument\<close> in the \<^verbatim>\<open>try\<close> block lands in \<^verbatim>\<open>catch (payoutError)\<close>,
  whose own \<^verbatim>\<open>updateDocument\<close> on the same id throws again and lands in the outer
  \<^verbatim>\<open>catch\<close>.
\<close>

definition retryTransaction :: "env \<Rightarrow> world \<Rightarrow> int \<Rightarrow> string \<Rightarrow> world \<times> RetryResult" where
  "retryTransaction e w now transactionId' =
     (case listFirst (\<lambda>d. transactionId d = transactionId') (transactions_india w) of
        None \<Rightarrow> (w, retry_error ''Transaction not found'')
      | Some (i, transaction) \<Rightarrow>
          if state transaction \<notin> set [''submitted'', ''failed'']
          then (w, retry_error (''Transaction in '' @ state transaction @ '' state is not retryable''))
          else if retryCount transaction \<ge> RETRY_CONFIG_maxRetries
          then (w, retry_error ''Maximum retry attempts reached'')
          else
            let newRetryCount = retryCount transaction + 1;
                request = retry_request e transaction transactionId' newRetryCount;
                w1 = w\<lparr>payout_calls := payout_calls w @ [request]\<rparr>
            in (case createPayout e (payout_calls w) request of
                  Inr razorpayPayout \<Rightarrow>
                    (case updateDocument (transactions_india w1) i
                            (retry_success_update transaction razorpayPayout newRetryCount now) of
                       None \<Rightarrow> (w1, retry_error DocumentNotFound)
                     | Some docs \<Rightarrow>
                         (w1\<lparr>transactions_india := docs\<rparr>,
                          \<lparr>rr_success = True,
                           rr_newState = Some (if payout_status razorpayPayout = ''processed''
                                               then ''completed'' else payout_status razorpayPayout),
                           rr_error = None\<rparr>))
                | Inl message \<Rightarrow>
                    (case updateDocument (transactions_india w1) i
                            (retry_failure_update transaction message newRetryCount now) of
                       None \<Rightarrow> (w1, retry_error DocumentNotFound)
                     | Some docs \<Rightarrow>
                         (w1\<lparr>transactions_india := docs\<rparr>,
                          \<lparr>rr_success = False,
                           rr_newState = (if newRetryCount \<ge> RETRY_CONFIG_maxRetries
                                          then Some ''failed'' else None),
                           rr_error = Some message\<rparr>))))"

text \<open>
  \<^verbatim>\<open>processRetries\<close>: the loop over the documents \<^verbatim>\<open>getTransactionsForRetry\<close> returned,
  each retried by its \<^verbatim>\<open>transactionId\<close>; the counters are processed, succeeded, failed.
\<close>

record RetrySummary =
  rs_processed :: nat
  rs_succeeded :: nat
  rs_failed :: nat
  rs_errors :: "string list"

fun processRetries_loop ::
  "env \<Rightarrow> int \<Rightarrow> IndianTransaction list \<Rightarrow> world \<Rightarrow> RetrySummary \<Rightarrow> world \<times> RetrySummary" where
  "processRetries_loop e now [] w acc = (w, acc)"
| "processRetries_loop e now (transaction # rest) w acc =
     (let (w', retryResult) = retryTransaction e w now (transactionId transaction)
      in if rr_success retryResult
         then processRetries_loop e now rest w'
                (acc\<lparr>rs_processed := rs_processed acc + 1, rs_succeeded := rs_succeeded acc + 1\<rparr>)
         else processRetries_loop e now rest w'
                (acc\<lparr>rs_processed := rs_processed acc + 1, rs_failed := rs_failed acc + 1,
                     rs_errors := rs_errors acc @
                       [transactionId transaction @ '': '' @
                        (case rr_error retryResult of Some m \<Rightarrow> m | None \<Rightarrow> ''undefined'')]\<rparr>))"

definition processRetries :: "env \<Rightarrow> world \<Rightarrow> int \<Rightarrow> world \<times> RetrySummary" where
  "processRetries e w now =
     processRetries_loop e now (getTransactionsForRetry w now) w
       \<lparr>rs_processed = 0, rs_succeeded = 0, rs_failed = 0, rs_errors = []\<rparr>"

section \<open>Reconciler\<close>

record ReconciliationResult =
  rc_transactionId :: string
  rc_previousState :: TransactionState
  rc_newState :: TransactionState
  rc_reconciled :: bool
  rc_discrepancy :: "string option"

text \<open>The result built by the \<^verbatim>\<open>catch\<close> block of \<^verbatim>\<open>reconcileTransaction\<close>.\<close>

definition reconcile_caught :: "string \<Rightarrow> string \<Rightarrow> ReconciliationResult" where
  "reconcile_caught transactionId' message =
     \<lparr>rc_transactionId = transactionId', rc_previousState = ''initiated'',
      rc_newState = ''initiated'', rc_reconciled = False, rc_discrepancy = Some message\<rparr>"

text \<open>The \<^verbatim>\<open>switch\<close> of \<^verbatim>\<open>reconcileTransaction\<close> on the processor's status.\<close>

definition reconcile_map_status :: "string \<Rightarrow> TransactionState" where
  "reconcile_map_status status =
     (if status = ''processed'' then ''completed''
      else if status = ''rejected'' then ''failed''
      else status)"

definition reconcileTransaction ::
  "env \<Rightarrow> world \<Rightarrow> int \<Rightarrow> string \<Rightarrow> world \<times> ReconciliationResult" where
  "reconcileTransaction e w now transactionId' =
     (case listFirst (\<lambda>d. transactionId d = transactionId') (transactions_india w) of
        None \<Rightarrow>
          (w, \<lparr>rc_transactionId = transactionId', rc_previousState = ''initiated'',
               rc_newState = ''initiated'', rc_reconciled = False,
               rc_discrepancy = Some ''Transaction not found''\<rparr>)
      | Some (i, transaction) \<Rightarrow>
          let previousState' = state transaction in
          (case razorpayPayoutId transaction of
             None \<Rightarrow>
               (w, \<lparr>rc_transactionId = transactionId', rc_previousState = previousState',
                    rc_newState = previousState', rc_reconciled = True,
                    rc_discrepancy = Some ''No Razorpay payout ID - local only''\<rparr>)
           | Some payoutId \<Rightarrow>
               if payoutId = []
               then (w, \<lparr>rc_transactionId = transactionId', rc_previousState = previousState',
                         rc_newState = previousState', rc_reconciled = True,
                         rc_discrepancy = Some ''No Razorpay payout ID - local only''\<rparr>)
               else
               (case getPayout e payoutId of
                  Inl message \<Rightarrow> (w, reconcile_caught transactionId' message)
                | Inr razorpayPayout \<Rightarrow>
                    let razorpayState = reconcile_map_status (payout_status razorpayPayout) in
                    if razorpayState = previousState'
                    then (w, \<lparr>rc_transactionId = transactionId', rc_previousState = previousState',
                              rc_newState = previousState', rc_reconciled = True,
                              rc_discrepancy = None\<rparr>)
                    else
                    (case isValidTransition previousState' razorpayState of
                       Inl message \<Rightarrow> (w, reconcile_caught transactionId' message)
                     | Inr True \<Rightarrow>
                         (let (w', result) = transitionState w now
                                \<lparr>tp_transactionId = transactionId',
                                 tp_newState = razorpayState,
                                 tp_reason = Some (''Reconciled from Razorpay status: ''
                                                   @ payout_status razorpayPayout),
                                 tp_source = SourceReconciliation,
                                 tp_metadata = Some
                                   [(''razorpayStatus'', Some (payout_status razorpayPayout)),
                                    (''utr'', payout_utr razorpayPayout),
                                    (''failure_reason'', payout_failure_reason razorpayPayout)]\<rparr>
                          in (w', \<lparr>rc_transactionId = transactionId',
                                   rc_previousState = previousState',
                                   rc_newState = razorpayState,
                                   rc_reconciled = (case result of Inr _ \<Rightarrow> True | Inl _ \<Rightarrow> False),
                                   rc_discrepancy =
                                     (case result of
                                        Inr _ \<Rightarrow> Some (''State updated from '' @ previousState'
                                                        @ '' to '' @ razorpayState)
                                      | Inl message \<Rightarrow> Some message)\<rparr>))
                     | Inr False \<Rightarrow>
                         (w, \<lparr>rc_transactionId = transactionId',
                              rc_previousState = previousState',
                              rc_newState = previousState',
                              rc_reconciled = False,
                              rc_discrepancy = Some
                                (''Invalid transition from '' @ previousState' @ '' to ''
                                 @ razorpayState @ '' (Razorpay: ''
                                 @ payout_status razorpayPayout @ '')'')\<rparr>)))))"

text \<open>
  \<^verbatim>\<open>reconcileAllPending\<close>: at most 100 transactions in submitted, queued, pending or
  processing whose \<^verbatim>\<open>razorpayPayoutId\<close> is not null, each reconciled by its
  \<^verbatim>\<open>transactionId\<close>.
\<close>

fun reconcile_loop ::
  "env \<Rightarrow> int \<Rightarrow> IndianTransaction list \<Rightarrow> world \<Rightarrow> ReconciliationResult list
     \<Rightarrow> world \<times> ReconciliationResult list" where
  "reconcile_loop e now [] w results = (w, results)"
| "reconcile_loop e now (transaction # rest) w results =
     (let (w', result) = reconcileTransaction e w now (transactionId transaction)
      in reconcile_loop e now rest w' (results @ [result]))"

definition reconcileAllPending ::
  "env \<Rightarrow> world \<Rightarrow> int \<Rightarrow> world \<times> ReconciliationResult list" where
  "reconcileAllPending e w now =
     reconcile_loop e now
       (take 100 (filter
          (\<lambda>d. state d \<in> set [''submitted'', ''queued'', ''pending'', ''processing'']
               \<and> razorpayPayoutId d \<noteq> None)
          (transactions_india w)))
       w []"

section \<open>Webhook processor\<close>

text \<open>Source: \<^verbatim>\<open>src/app/api/webhooks/razorpay/route.ts\<close>.\<close>

definition PAYOUT_EVENTS :: "string list" where
  "PAYOUT_EVENTS =
     [''payout.queued'', ''payout.pending'', ''payout.processing'', ''payout.processed'',
      ''payout.reversed'', ''payout.cancelled'', ''payout.rejected'', ''payout.failed'']"

definition isPayoutEvent :: "string \<Rightarrow> bool" where
  "isPayoutEvent eventType' = (eventType' \<in> set PAYOUT_EVENTS)"

text \<open>\<^verbatim>\<open>mapPayoutStatusToState\<close>: a \<^verbatim>\<open>switch\<close> with a default branch.\<close>

definition mapPayoutStatusToState :: "string \<Rightarrow> TransactionState" where
  "mapPayoutStatusToState status =
     (if status = ''queued'' then ''queued''
      else if status = ''pending'' then ''pending''
      else if status = ''processing'' then ''processing''
      else if status = ''processed'' then ''completed''
      else if status = ''reversed'' then ''reversed''
      else if status = ''cancelled'' then ''cancelled''
      else if status = ''rejected'' \<or> status = ''failed'' then ''failed''
      else ''pending'')"

text \<open>
  The external status vocabulary and its mapping as the specification words them
  (section 6).
\<close>

definition spec_status_table :: "(string \<times> TransactionState) list" where
  "spec_status_table =
     [(''queued'', ''queued''), (''processing'', ''processing''),
      (''pending'', ''pending''), (''processed'', ''completed''),
      (''reversed'', ''reversed''), (''cancelled'', ''cancelled''),
      (''rejected'', ''failed''), (''failed'', ''failed'')]"

text \<open>
  \<^verbatim>\<open>generateEventId\<close>: the first 32 hexadecimal digits of the SHA-256 of
  \<^verbatim>\<open>account_id:event:payout id or 'unknown':created_at\<close>.
\<close>

definition generateEventId :: "env \<Rightarrow> RazorpayWebhookEvent \<Rightarrow> string" where
  "generateEventId e ev =
     (let subject = (case payload_payout ev of
                       None \<Rightarrow> ''unknown''
                     | Some p \<Rightarrow> if payout_id p = [] then ''unknown'' else payout_id p)
      in take 32 (sha256_hex e
           (account_id ev @ '':'' @ event ev @ '':'' @ subject @ '':''
            @ toString_int (created_at ev))))"

definition hashPayload :: "env \<Rightarrow> string \<Rightarrow> string" where
  "hashPayload e payload = sha256_hex e payload"

record ProcessingResult =
  pr_success :: bool
  pr_transactionId :: "string option"
  pr_error :: "string option"

text \<open>The last write of \<^verbatim>\<open>processPayoutEvent\<close>: the payout's fields, no state.\<close>

definition payout_fields_update :: "RazorpayPayout \<Rightarrow> IndianTransaction \<Rightarrow> IndianTransaction" where
  "payout_fields_update payout doc =
     (let doc1 = doc\<lparr>razorpayPayoutId := Some (payout_id payout),
                     utr := payout_utr payout,
                     razorpayFees := Some (payout_fees payout),
                     razorpayTax := Some (payout_tax payout)\<rparr>
      in if truthy (payout_failure_reason payout)
         then doc1\<lparr>failureDescription := payout_failure_reason payout\<rparr>
         else doc1)"

definition webhook_metadata :: "RazorpayPayout \<Rightarrow> Metadata" where
  "webhook_metadata payout =
     [(''razorpayPayoutId'', Some (payout_id payout)),
      (''razorpayStatus'', Some (payout_status payout))]
     @ (if truthy (payout_utr payout) then [(''utr'', payout_utr payout)] else [])
     @ (if truthy (payout_failure_reason payout)
        then [(''failureReason'', payout_failure_reason payout)] else [])
     @ (if payout_status_details payout \<noteq> None
        then [(''statusDetails'', payout_status_details payout)] else [])"

text \<open>
  \<^verbatim>\<open>processPayoutEvent\<close>. The transaction is looked up by \<^verbatim>\<open>razorpayPayoutId\<close>, then by
  \<^verbatim>\<open>idempotencyKey = payout.reference_id\<close>. Whatever throws inside is caught and
  reported as \<^verbatim>\<open>{success: false, error}\<close>.
\<close>

definition processPayoutEvent ::
  "world \<Rightarrow> int \<Rightarrow> RazorpayWebhookEvent \<Rightarrow> world \<times> ProcessingResult" where
  "processPayoutEvent w now ev =
     (case payload_payout ev of
        None \<Rightarrow> (w, \<lparr>pr_success = False, pr_transactionId = None,
                      pr_error = Some ''No payout entity in event''\<rparr>)
      | Some payout \<Rightarrow>
          let byPayoutId = listFirst (\<lambda>d. razorpayPayoutId d = Some (payout_id payout))
                             (transactions_india w);
              found = (if byPayoutId = None \<and> truthy (payout_reference_id payout)
                       then listFirst
                              (\<lambda>d. Some (idempotencyKey d) = payout_reference_id payout)
                              (transactions_india w)
                       else byPayoutId)
          in (case found of
                None \<Rightarrow> (w, \<lparr>pr_success = False, pr_transactionId = None,
                              pr_error = Some (''Transaction not found for payout ''
                                               @ payout_id payout)\<rparr>)
              | Some (i, transaction) \<Rightarrow>
                  let newState = mapPayoutStatusToState (payout_status payout) in
                  if newState = state transaction
                  then (w, \<lparr>pr_success = True,
                            pr_transactionId = Some (transactionId transaction),
                            pr_error = None\<rparr>)
                  else
                  (case isValidTransition (state transaction) newState of
                     Inl message \<Rightarrow> (w, \<lparr>pr_success = False, pr_transactionId = None,
                                          pr_error = Some message\<rparr>)
                   | Inr False \<Rightarrow>
                       (w, \<lparr>pr_success = False,
                            pr_transactionId = Some (transactionId transaction),
                            pr_error = Some (''Invalid transition from '' @ state transaction
                                             @ '' to '' @ newState)\<rparr>)
                   | Inr True \<Rightarrow>
                       (let (w', result) = transitionState w now
                              \<lparr>tp_transactionId = transactionId transaction,
                               tp_newState = newState,
                               tp_reason = Some (''Webhook: '' @ event ev),
                               tp_source = SourceWebhook,
                               tp_metadata = Some (webhook_metadata payout)\<rparr>
                        in (case result of
                              Inl message \<Rightarrow>
                                (w', \<lparr>pr_success = False,
                                      pr_transactionId = Some (transactionId transaction),
                                      pr_error = Some message\<rparr>)
                            | Inr _ \<Rightarrow>
                                (case updateDocument (transactions_india w') i
                                        (payout_fields_update payout) of
                                   None \<Rightarrow> (w', \<lparr>pr_success = False, pr_transactionId = None,
                                                  pr_error = Some DocumentNotFound\<rparr>)
                                 | Some docs \<Rightarrow>
                                     (w'\<lparr>transactions_india := docs\<rparr>,
                                      \<lparr>pr_success = True,
                                       pr_transactionId = Some (transactionId transaction),
                                       pr_error = None\<rparr>)))))))"

text \<open>The HTTP response of the handler: status code and the fields of the JSON body.\<close>

record Response =
  resp_status :: nat
  resp_success :: "bool option"
  resp_message :: "string option"
  resp_eventId :: "string option"
  resp_transactionId :: "string option"
  resp_error :: "string option"

definition response_rejected :: "nat \<Rightarrow> string \<Rightarrow> Response" where
  "response_rejected code message =
     \<lparr>resp_status = code, resp_success = None, resp_message = None, resp_eventId = None,
      resp_transactionId = None, resp_error = Some message\<rparr>"

text \<open>The response of the outer \<^verbatim>\<open>catch\<close> block of the handler.\<close>

definition response_caught :: "string \<Rightarrow> Response" where
  "response_caught message =
     \<lparr>resp_status = 200, resp_success = Some True,
      resp_message = Some ''Event received but an error occurred'', resp_eventId = None,
      resp_transactionId = None, resp_error = Some message\<rparr>"

definition response_already_processed :: "string \<Rightarrow> Response" where
  "response_already_processed eventId' =
     \<lparr>resp_status = 200, resp_success = Some True,
      resp_message = Some ''Event already processed'', resp_eventId = Some eventId',
      resp_transactionId = None, resp_error = None\<rparr>"

text \<open>
  The update of the event record after processing; \<^verbatim>\<open>undefined\<close> values are dropped
  from the request, so an absent transaction id or error leaves the field as it is.
\<close>

definition event_record_update :: "ProcessingResult \<Rightarrow> int \<Rightarrow> WebhookEventRecord \<Rightarrow> WebhookEventRecord" where
  "event_record_update processingResult now record' =
     record'\<lparr>processed := pr_success processingResult,
             processedAt := Some now,
             event_transactionId := (case pr_transactionId processingResult of
                                       None \<Rightarrow> event_transactionId record'
                                     | Some t \<Rightarrow> Some t),
             event_error := (case pr_error processingResult of
                               None \<Rightarrow> event_error record'
                             | Some m \<Rightarrow> Some m)\<rparr>"

definition JSON_SyntaxError :: string where
  "JSON_SyntaxError = ''Unexpected token in JSON''"

definition WebhookSecretMissing :: string where
  "WebhookSecretMissing = ''Webhook secret not configured''"

text \<open>
  \<^verbatim>\<open>POST\<close>: the handler, from the raw body and the \<^verbatim>\<open>x-razorpay-signature\<close> header to
  the response and the store it leaves.
\<close>

definition POST :: "env \<Rightarrow> world \<Rightarrow> int \<Rightarrow> string \<Rightarrow> string option \<Rightarrow> world \<times> Response" where
  "POST e w now rawBody signature =
     (case signature of
        None \<Rightarrow> (w, response_rejected 400 ''Missing signature header'')
      | Some sig \<Rightarrow>
          if sig = [] then (w, response_rejected 400 ''Missing signature header'')
          else
          (case verifyWebhookSignature e rawBody sig of
             None \<Rightarrow> (w, response_caught WebhookSecretMissing)
           | Some False \<Rightarrow> (w, response_rejected 401 ''Invalid signature'')
           | Some True \<Rightarrow>
               (case JSON_parse e rawBody of
                  None \<Rightarrow> (w, response_caught JSON_SyntaxError)
                | Some ev \<Rightarrow>
                    let eventId' = generateEventId e ev in
                    if filter (\<lambda>r. eventId r = eventId') (webhook_events w) \<noteq> []
                    then (w, response_already_processed eventId')
                    else
                      let recordId = length (webhook_events w);
                          w1 = w\<lparr>webhook_events := webhook_events w @
                                 [\<lparr>eventId = eventId', eventType = event ev,
                                   payloadHash = hashPayload e rawBody, processed = False,
                                   event_createdAt = now, processedAt = None,
                                   event_transactionId = None, event_error = None\<rparr>]\<rparr>;
                          (w2, processingResult) =
                             (if isPayoutEvent (event ev) then processPayoutEvent w1 now ev
                              else (w1, \<lparr>pr_success = True, pr_transactionId = None,
                                         pr_error = None\<rparr>))
                      in (case updateDocument (webhook_events w2) recordId
                                 (event_record_update processingResult now) of
                            None \<Rightarrow> (w2, response_caught DocumentNotFound)
                          | Some records \<Rightarrow>
                              (w2\<lparr>webhook_events := records\<rparr>,
                               if \<not> pr_success processingResult
                               then \<lparr>resp_status = 200, resp_success = Some True,
                                     resp_message = Some ''Event received but processing failed'',
                                     resp_eventId = None, resp_transactionId = None,
                                     resp_error = pr_error processingResult\<rparr>
                               else \<lparr>resp_status = 200, resp_success = Some True,
                                     resp_message = Some ''Event processed successfully'',
                                     resp_eventId = Some eventId',
                                     resp_transactionId = pr_transactionId processingResult,
                                     resp_error = None\<rparr>)))))"

text \<open>
  The part of the handler between the duplicate check and the update of the event
  record, named for the lemmas: the record created first, and the processing step run on
  the store that holds it.
\<close>

definition fresh_record :: "env \<Rightarrow> RazorpayWebhookEvent \<Rightarrow> string \<Rightarrow> int \<Rightarrow> WebhookEventRecord" where
  "fresh_record e ev rawBody now =
     \<lparr>eventId = generateEventId e ev, eventType = event ev,
      payloadHash = hashPayload e rawBody, processed = False,
      event_createdAt = now, processedAt = None,
      event_transactionId = None, event_error = None\<rparr>"

definition fresh_processing ::
  "env \<Rightarrow> world \<Rightarrow> int \<Rightarrow> string \<Rightarrow> RazorpayWebhookEvent \<Rightarrow> world \<times> ProcessingResult" where
  "fresh_processing e w now rawBody ev =
     (let w1 = w\<lparr>webhook_events := webhook_events w @ [fresh_record e ev rawBody now]\<rparr>
      in if isPayoutEvent (event ev) then processPayoutEvent w1 now ev
         else (w1, \<lparr>pr_success = True, pr_transactionId = None, pr_error = None\<rparr>))"

text \<open>
  The two lookups of \<^verbatim>\<open>processPayoutEvent\<close> (by \<^verbatim>\<open>razorpayPayoutId\<close>, then by
  \<^verbatim>\<open>idempotencyKey\<close> when the first finds nothing and the payout carries a reference),
  and the argument it passes to \<^verbatim>\<open>transitionState\<close>, named for the theorems.
\<close>

definition payout_transaction ::
  "IndianTransaction list \<Rightarrow> RazorpayPayout \<Rightarrow> (nat \<times> IndianTransaction) option" where
  "payout_transaction docs payout =
     (let byPayoutId = listFirst (\<lambda>d. razorpayPayoutId d = Some (payout_id payout)) docs
      in if byPayoutId = None \<and> truthy (payout_reference_id payout)
         then listFirst (\<lambda>d. Some (idempotencyKey d) = payout_reference_id payout) docs
         else byPayoutId)"

definition webhook_transition_params ::
  "RazorpayWebhookEvent \<Rightarrow> RazorpayPayout \<Rightarrow> IndianTransaction \<Rightarrow> TransitionParams" where
  "webhook_transition_params ev payout transaction =
     \<lparr>tp_transactionId = transactionId transaction,
      tp_newState = mapPayoutStatusToState (payout_status payout),
      tp_reason = Some (''Webhook: '' @ event ev),
      tp_source = SourceWebhook,
      tp_metadata = Some (webhook_metadata payout)\<rparr>"

text \<open>The number of transition records stored, over all transactions.\<close>

definition transition_count :: "world \<Rightarrow> nat" where
  "transition_count w = sum_list (map (\<lambda>d. length (stateHistory d)) (transactions_india w))"

section \<open>Payout submitter\<close>

text \<open>
  Source: \<^verbatim>\<open>initiatePayoutIndia\<close> in \<^verbatim>\<open>src/lib/actions/razorpay.actions.ts\<close>, with
  \<^verbatim>\<open>validatePayoutAmount\<close> and \<^verbatim>\<open>PAYOUT_MODE_LIMITS\<close> of the Razorpay wrapper.

  The caller's \<^verbatim>\<open>amount\<close> is a number of rupees. It is modelled by its value in paise,
  an integer: the amounts covered are those with at most two decimal places, for which
  \<^verbatim>\<open>rupeesToPaise(amount) = Math.round(amount * 100)\<close> is that integer and the
  comparisons with the limits are comparisons of paise.
\<close>

definition mode_name :: "PayoutMode \<Rightarrow> string" where
  "mode_name m = (case m of NEFT \<Rightarrow> ''NEFT'' | RTGS \<Rightarrow> ''RTGS'' | IMPS \<Rightarrow> ''IMPS''
                           | UPI \<Rightarrow> ''UPI'' | card \<Rightarrow> ''card'')"

text \<open>\<^verbatim>\<open>PAYOUT_MODE_LIMITS\<close> in rupees; no maximum stands for \<^verbatim>\<open>Infinity\<close>.\<close>

definition PAYOUT_MODE_LIMITS :: "PayoutMode \<Rightarrow> (int \<times> int option) option" where
  "PAYOUT_MODE_LIMITS m =
     (case m of
        UPI \<Rightarrow> Some (1, Some 100000)
      | IMPS \<Rightarrow> Some (1, Some 500000)
      | NEFT \<Rightarrow> Some (1, None)
      | RTGS \<Rightarrow> Some (200000, None)
      | card \<Rightarrow> None)"

text \<open>The rupee sign of the error messages, in UTF-8.\<close>

definition rupee_sign :: string where
  "rupee_sign = [CHR 0xE2, CHR 0x82, CHR 0xB9]"

text \<open>\<^verbatim>\<open>validatePayoutAmount\<close>: \<open>None\<close> is \<^verbatim>\<open>{valid: true}\<close>, \<open>Some\<close> the error.\<close>

definition validatePayoutAmount :: "PayoutMode \<Rightarrow> int \<Rightarrow> string option" where
  "validatePayoutAmount m amountPaise =
     (if m = card then Some ''Card payouts not supported''
      else (case PAYOUT_MODE_LIMITS m of
              None \<Rightarrow> Some ''Card payouts not supported''
            | Some (lo, hi) \<Rightarrow>
                if amountPaise < lo * 100
                then Some (''Minimum amount for '' @ mode_name m @ '' is '' @ rupee_sign
                           @ toString_int lo)
                else (case hi of
                        None \<Rightarrow> None
                      | Some hi' \<Rightarrow>
                          if amountPaise > hi' * 100
                          then Some (''Maximum amount for '' @ mode_name m @ '' is ''
                                     @ rupee_sign @ toString_int hi')
                          else None)))"

text \<open>
  \<^verbatim>\<open>${accountHolderName || vpaAddress}\<close> inside the default narration: the holder's
  name when it is set and not empty, otherwise the VPA, printed \<^verbatim>\<open>undefined\<close> when absent.
\<close>

definition beneficiary_label :: "RazorpayFundAccountRecord \<Rightarrow> string" where
  "beneficiary_label fundAccountRecord =
     (let vpa = (case fa_vpaAddress fundAccountRecord of None \<Rightarrow> ''undefined'' | Some v \<Rightarrow> v)
      in case fa_accountHolderName fundAccountRecord of
           None \<Rightarrow> vpa
         | Some name \<Rightarrow> if name = [] then vpa else name)"

record CreatePayoutResponse =
  cp_success :: bool
  cp_transactionId :: "string option"
  cp_razorpayPayoutId :: "string option"
  cp_state :: "TransactionState option"
  cp_error :: "string option"

definition initiate_error :: "string \<Rightarrow> CreatePayoutResponse" where
  "initiate_error message =
     \<lparr>cp_success = False, cp_transactionId = None, cp_razorpayPayoutId = None,
      cp_state = None, cp_error = Some message\<rparr>"

record InitiateParams =
  ip_userId :: string
  ip_fundAccountRecordId :: string
  ip_amountPaise :: int
  ip_mode :: PayoutMode
  ip_purpose :: string
  ip_narration :: "string option"

text \<open>
  \<^verbatim>\<open>initiatePayoutIndia\<close>. The idempotency key (\<^verbatim>\<open>generateIdempotencyKey\<close>: prefix,
  clock and random bytes) and the transaction id (clock and \<^verbatim>\<open>Math.random\<close>) are drawn
  from the environment and are arguments here. The new document is appended to the
  collection; its id is the length of the collection before.
\<close>

definition initiatePayoutIndia ::
  "env \<Rightarrow> world \<Rightarrow> int \<Rightarrow> string \<Rightarrow> string \<Rightarrow> InitiateParams \<Rightarrow> world \<times> CreatePayoutResponse" where
  "initiatePayoutIndia e w now idempotencyKey' transactionId' params =
     (case validatePayoutAmount (ip_mode params) (ip_amountPaise params) of
        Some message \<Rightarrow> (w, initiate_error message)
      | None \<Rightarrow>
     (case map_of (razorpay_fund_accounts w) (ip_fundAccountRecordId params) of
        None \<Rightarrow> (w, initiate_error DocumentNotFound)
      | Some fundAccountRecord \<Rightarrow>
          if \<not> fa_active fundAccountRecord
          then (w, initiate_error ''Fund account is not active'')
          else if fa_userId fundAccountRecord \<noteq> ip_userId params
          then (w, initiate_error ''Fund account does not belong to user'')
          else
            let first = \<lparr>fromState = ''initiated'', toState = ''initiated'', timestamp = now,
                         reason = None, source = SourceUser, metadata = None\<rparr>;
                recordId = length (transactions_india w);
                w1 = w\<lparr>transactions_india := transactions_india w @
                       [\<lparr>userId = ip_userId params,
                         transactionId = transactionId',
                         idempotencyKey = idempotencyKey',
                         razorpayPayoutId = None,
                         razorpayContactId = Some (fa_razorpayContactId fundAccountRecord),
                         razorpayFundAccountId = Some (fa_razorpayFundAccountId fundAccountRecord),
                         state = ''initiated'',
                         previousState = None,
                         stateHistory = [first],
                         amount = ip_amountPaise params,
                         mode = ip_mode params,
                         purpose = ip_purpose params,
                         narration = ip_narration params,
                         utr = None,
                         razorpayFees = None,
                         razorpayTax = None,
                         failureDescription = None,
                         retryCount = 0,
                         maxRetries = 3,
                         nextRetryAt = None,
                         createdAt = now,
                         updatedAt = now,
                         submittedAt = None,
                         completedAt = None,
                         failedAt = None\<rparr>]\<rparr>;
                request =
                  \<lparr>account_number = RAZORPAY_ACCOUNT_NUMBER e,
                   fund_account_id = Some (fa_razorpayFundAccountId fundAccountRecord),
                   req_amount = ip_amountPaise params,
                   req_mode = ip_mode params,
                   req_purpose = ip_purpose params,
                   queue_if_low_balance = True,
                   reference_id = idempotencyKey',
                   req_narration =
                     (if truthy (ip_narration params) then ip_narration params
                      else Some (''Payment to '' @ beneficiary_label fundAccountRecord)),
                   req_notes = [(''transactionId'', transactionId'),
                                (''userId'', ip_userId params)]\<rparr>;
                w2 = w1\<lparr>payout_calls := payout_calls w1 @ [request]\<rparr>
            in (case createPayout e (payout_calls w1) request of
                  Inr razorpayPayout \<Rightarrow>
                    (let newState = payout_status razorpayPayout;
                         history = [first,
                           \<lparr>fromState = ''initiated'', toState = newState, timestamp = now,
                            reason = None, source = SourceSystem,
                            metadata = Some [(''razorpayPayoutId'',
                                              Some (payout_id razorpayPayout))]\<rparr>]
                     in (case updateDocument (transactions_india w2) recordId
                               (\<lambda>doc. doc\<lparr>razorpayPayoutId := Some (payout_id razorpayPayout),
                                            state := newState,
                                            previousState := Some ''initiated'',
                                            stateHistory := history,
                                            utr := payout_utr razorpayPayout,
                                            razorpayFees := Some (payout_fees razorpayPayout),
                                            razorpayTax := Some (payout_tax razorpayPayout),
                                            submittedAt := Some now,
                                            updatedAt := now\<rparr>) of
                           None \<Rightarrow> (w2, initiate_error DocumentNotFound)
                         | Some docs \<Rightarrow>
                             (w2\<lparr>transactions_india := docs\<rparr>,
                              \<lparr>cp_success = True, cp_transactionId = Some transactionId',
                               cp_razorpayPayoutId = Some (payout_id razorpayPayout),
                               cp_state = Some newState, cp_error = None\<rparr>)))
                | Inl message \<Rightarrow>
                    (let history = [first,
                           \<lparr>fromState = ''initiated'', toState = ''submitted'', timestamp = now,
                            reason = Some message, source = SourceSystem, metadata = None\<rparr>]
                     in (case updateDocument (transactions_india w2) recordId
                               (\<lambda>doc. doc\<lparr>state := ''submitted'',
                                            previousState := Some ''initiated'',
                                            stateHistory := history,
                                            failureDescription := Some message,
                                            nextRetryAt := Some (now + 60000),
                                            updatedAt := now\<rparr>) of
                           None \<Rightarrow> (w2, initiate_error DocumentNotFound)
                         | Some docs \<Rightarrow>
                             (w2\<lparr>transactions_india := docs\<rparr>,
                              \<lparr>cp_success = False, cp_transactionId = Some transactionId',
                               cp_razorpayPayoutId = None,
                               cp_state = Some ''submitted'', cp_error = Some message\<rparr>))))))"

section \<open>Concrete stores for the closed examples\<close>

text \<open>
  One transaction, accepted by the processor and pending; and the same store after another
  writer (the webhook for \<^verbatim>\<open>payout.failed\<close>) has moved it to failed.
\<close>

definition tx_pending :: IndianTransaction where
  "tx_pending =
     \<lparr>userId = ''user_1'', transactionId = ''txn_1'', idempotencyKey = ''payout_user_1_1_ab'',
      razorpayPayoutId = Some ''pout_1'', razorpayContactId = Some ''cont_1'',
      razorpayFundAccountId = Some ''fa_1'', state = ''pending'', previousState = Some ''initiated'',
      stateHistory = [], amount = 50000, mode = UPI, purpose = ''payout'', narration = None,
      utr = None, razorpayFees = Some 0, razorpayTax = Some 0, failureDescription = None,
      retryCount = 0, maxRetries = 3, nextRetryAt = None, createdAt = 1000, updatedAt = 1000,
      submittedAt = Some 1000, completedAt = None, failedAt = None\<rparr>"

definition world_pending :: world where
  "world_pending =
     \<lparr>transactions_india = [tx_pending], webhook_events = [], razorpay_fund_accounts = [],
      payout_calls = []\<rparr>"

definition params_failed :: TransitionParams where
  "params_failed =
     \<lparr>tp_transactionId = ''txn_1'', tp_newState = ''failed'',
      tp_reason = Some ''Webhook: payout.failed'', tp_source = SourceWebhook, tp_metadata = None\<rparr>"

definition params_completed :: TransitionParams where
  "params_completed =
     \<lparr>tp_transactionId = ''txn_1'', tp_newState = ''completed'',
      tp_reason = Some ''Reconciled from Razorpay status: processed'',
      tp_source = SourceReconciliation, tp_metadata = None\<rparr>"

definition world_failed_meanwhile :: world where
  "world_failed_meanwhile = fst (transitionState world_pending 2000 params_failed)"

definition payout_with_status :: "string \<Rightarrow> RazorpayPayout" where
  "payout_with_status status =
     \<lparr>payout_id = ''pout_1'', payout_status = status, payout_utr = None, payout_fees = 0,
      payout_tax = 0, payout_reference_id = Some ''payout_user_1_1000_ab12'',
      payout_failure_reason = None, payout_status_details = None\<rparr>"

definition event_of :: "string \<Rightarrow> string \<Rightarrow> int \<Rightarrow> RazorpayWebhookEvent" where
  "event_of eventType' status at =
     \<lparr>account_id = ''acc_1'', event = eventType',
      payload_payout = Some (payout_with_status status), created_at = at\<rparr>"

text \<open>
  A processor that times out on every creation call; one that times out on the first
  call only and then answers with the given status. The signature check accepts the
  signature \<open>''valid''\<close>; the parser knows four bodies; the hash is a stand-in.
\<close>

definition env_with :: "(CreatePayoutRequest list \<Rightarrow> CreatePayoutRequest \<Rightarrow> string + RazorpayPayout) \<Rightarrow> env" where
  "env_with create =
     \<lparr>createPayout = create,
      getPayout = (\<lambda>payoutId. Inr (payout_with_status ''processed'')),
      verifyWebhookSignature = (\<lambda>body sig. Some (sig = ''valid'')),
      JSON_parse = (\<lambda>body.
         if body = ''body_failed'' then Some (event_of ''payout.failed'' ''failed'' 20)
         else if body = ''body_on_hold'' then Some (event_of ''payout.queued'' ''on_hold'' 30)
         else if body = ''body_processed'' then Some (event_of ''payout.processed'' ''processed'' 40)
         else if body = ''body_processing'' then Some (event_of ''payout.processing'' ''processing'' 50)
         else None),
      sha256_hex = (\<lambda>s. s),
      RAZORPAY_ACCOUNT_NUMBER = ''2323230000000000''\<rparr>"

definition env_failing :: env where
  "env_failing = env_with (\<lambda>calls request. Inl ''ETIMEDOUT'')"

definition env_first_call_fails :: "string \<Rightarrow> env" where
  "env_first_call_fails status =
     env_with (\<lambda>calls request. if calls = [] then Inl ''ETIMEDOUT''
                                else Inr (payout_with_status status))"

definition env_answering :: "string \<Rightarrow> env" where
  "env_answering status = env_with (\<lambda>calls request. Inr (payout_with_status status))"

definition fund_account_1 :: RazorpayFundAccountRecord where
  "fund_account_1 =
     \<lparr>fa_userId = ''user_1'', fa_razorpayFundAccountId = ''fa_1'',
      fa_razorpayContactId = ''cont_1'', fa_accountHolderName = Some ''A Payee'',
      fa_vpaAddress = None, fa_active = True\<rparr>"

definition world_start :: world where
  "world_start =
     \<lparr>transactions_india = [], webhook_events = [],
      razorpay_fund_accounts = [(''fa_rec_1'', fund_account_1)],
      payout_calls = []\<rparr>"

definition params_500 :: InitiateParams where
  "params_500 =
     \<lparr>ip_userId = ''user_1'', ip_fundAccountRecordId = ''fa_rec_1'', ip_amountPaise = 50000,
      ip_mode = UPI, ip_purpose = ''payout'', ip_narration = None\<rparr>"

text \<open>The submission at time 1000 under each processor.\<close>

definition submit :: "env \<Rightarrow> world" where
  "submit e = fst (initiatePayoutIndia e world_start 1000 ''payout_user_1_1000_ab12'' ''txn_1'' params_500)"

text \<open>
  The submission timed out, and the webhook \<^verbatim>\<open>payout.failed\<close> then arrived for the
  payout the processor had created all the same.
\<close>

definition world_failed_by_webhook :: world where
  "world_failed_by_webhook =
     fst (POST (env_first_call_fails ''queued'') (submit (env_first_call_fails ''queued''))
            30000 ''body_failed'' (Some ''valid''))"

text \<open>The store after a timed-out submission and three failed retries.\<close>

definition world_retries_exhausted :: world where
  "world_retries_exhausted =
     fst (retryTransaction env_failing
       (fst (retryTransaction env_failing
         (fst (retryTransaction env_failing (submit env_failing) 61000 ''txn_1''))
         181000 ''txn_1''))
       421000 ''txn_1'')"

text \<open>A processor whose status poll answers with a status outside the vocabulary.\<close>

definition env_on_hold :: env where
  "env_on_hold = (env_answering ''queued'')
     \<lparr>getPayout := (\<lambda>payoutId. Inr (payout_with_status ''on_hold''))\<rparr>"

text \<open>A payout accepted by the processor in status queued.\<close>

definition world_queued :: world where
  "world_queued = submit (env_answering ''queued'')"

section \<open>The state machine: theorems\<close>

lemma isValidTransition_own_key:
  "map_of VALID_TRANSITIONS s = Some nexts \<Longrightarrow>
   isValidTransition s t = Inr (t \<in> set nexts)"
  by (simp add: isValidTransition_def)

lemma isValidTransition_true_iff:
  "isValidTransition s t = Inr True \<longleftrightarrow> (s, t) \<in> spec_transition_table"
  by (simp add: isValidTransition_def VALID_TRANSITIONS_def spec_transition_table_def
        Object_prototype_properties_def)

lemma isValidTransition_spec_terminal:
  "s \<in> spec_terminal_states \<Longrightarrow> isValidTransition s t = Inr False"
  by (auto simp add: isValidTransition_def VALID_TRANSITIONS_def spec_terminal_states_def)

text \<open>
  Claim C2. On the eleven states, \<open>isValidTransition s t\<close> returns true for
  exactly the pairs of the specification's transition table and false for every other pair
  (whatever the target string is); the four states failed, reversed, cancelled and
  refund_completed have no valid outgoing transition at all.
\<close>

theorem isValidTransition_table_closure:
  "(\<forall>s \<in> set TransactionState_values. \<forall>t.
      isValidTransition s t = Inr ((s, t) \<in> spec_transition_table))
   \<and> (\<forall>s \<in> spec_terminal_states. \<forall>t.
      isValidTransition s t = Inr False)"
  by (simp add: isValidTransition_def VALID_TRANSITIONS_def spec_transition_table_def
        TransactionState_values_def spec_terminal_states_def)

theorem isValidTransition_table_closure_witness:
  "''queued'' \<in> set TransactionState_values
   \<and> isValidTransition ''queued'' ''processing'' = Inr True
   \<and> isValidTransition ''queued'' ''completed'' = Inr False
   \<and> ''failed'' \<in> spec_terminal_states
   \<and> isValidTransition ''failed'' ''queued'' = Inr False"
proof -
  have q: "''queued'' \<in> set TransactionState_values"
    by (simp add: TransactionState_values_def)
  have f: "''failed'' \<in> spec_terminal_states"
    by (simp add: spec_terminal_states_def)
  have a: "isValidTransition ''queued'' ''processing''
             = Inr ((''queued'', ''processing'') \<in> spec_transition_table)"
    using isValidTransition_table_closure q by blast
  have b: "isValidTransition ''queued'' ''completed''
             = Inr ((''queued'', ''completed'') \<in> spec_transition_table)"
    using isValidTransition_table_closure q by blast
  have c: "isValidTransition ''failed'' ''queued'' = Inr False"
    using isValidTransition_table_closure f by blast
  show ?thesis
    using q f a b c by (simp add: spec_transition_table_def)
qed

text \<open>
  Claim C9, as stated: \<open>isTerminalState\<close> is the membership test of the four-element set
  failed, reversed, cancelled, refund_completed, and is false for completed. The source's
  \<^verbatim>\<open>TERMINAL_STATES\<close> lists completed as well, so the claim fails at completed.
\<close>

theorem isTerminalState_completed_counterexample:
  "isTerminalState ''completed'' \<and> ''completed'' \<notin> spec_terminal_states"
  by (simp add: isTerminalState_def TERMINAL_STATES_def spec_terminal_states_def)

text \<open>
  Claim C9, amended: \<open>isTerminalState\<close> is true for exactly the five states completed,
  failed, reversed, cancelled and refund_completed, that is for the specification's four
  terminal states and for completed, and false for every other string.
\<close>

theorem isTerminalState_five_states:
  "isTerminalState s \<longleftrightarrow> s \<in> spec_terminal_states \<union> {''completed''}"
  by (auto simp add: isTerminalState_def TERMINAL_STATES_def spec_terminal_states_def)

section \<open>Store and transition lemmas\<close>

lemma listFirst_Some:
  "listFirst P docs = Some (i, d) \<Longrightarrow> i < length docs \<and> docs ! i = d \<and> P d"
  unfolding listFirst_def
  by (auto simp add: find_Some_iff nth_enumerate_eq)

lemma listFirst_None:
  "listFirst P docs = None \<longleftrightarrow> (\<forall>d \<in> set docs. \<not> P d)"
proof
  assume n: "listFirst P docs = None"
  show "\<forall>d \<in> set docs. \<not> P d"
  proof
    fix d assume "d \<in> set docs"
    then obtain i where i: "i < length docs" "docs ! i = d"
      by (auto simp add: in_set_conv_nth)
    then have "(i, d) \<in> set (List.enumerate 0 docs)"
      by (simp add: in_set_enumerate_eq)
    with n show "\<not> P d"
      unfolding listFirst_def by (auto simp add: find_None_iff)
  qed
next
  assume a: "\<forall>d \<in> set docs. \<not> P d"
  have "\<And>x. x \<in> set (List.enumerate 0 docs) \<Longrightarrow> snd x \<in> set docs"
    by (auto simp add: in_set_enumerate_eq)
  with a show "listFirst P docs = None"
    unfolding listFirst_def by (auto simp add: find_None_iff)
qed

lemma listFirst_append_fresh:
  assumes "\<forall>d \<in> set docs. \<not> P d" and "P x"
  shows "listFirst P (docs @ [x]) = Some (length docs, x)"
proof -
  have "\<exists>d \<in> set (docs @ [x]). P d" using assms by auto
  then have "listFirst P (docs @ [x]) \<noteq> None"
    by (simp only: listFirst_None) auto
  then obtain i d where s: "listFirst P (docs @ [x]) = Some (i, d)" by auto
  from listFirst_Some[OF s] have i: "i < length (docs @ [x])" "(docs @ [x]) ! i = d" "P d"
    by auto
  have "i = length docs"
  proof (rule ccontr)
    assume "i \<noteq> length docs"
    with i have "i < length docs" by simp
    with i have "d \<in> set docs" by (auto simp add: nth_append)
    with assms i show False by auto
  qed
  with i s show ?thesis by simp
qed

lemma updateDocument_Some:
  "i < length docs \<Longrightarrow> updateDocument docs i f = Some (docs[i := f (docs ! i)])"
  by (simp add: updateDocument_def)

lemma transitionState_updateData_state:
  "state (transitionState_updateData t p now doc) = tp_newState p"
  "previousState (transitionState_updateData t p now doc) = Some (state t)"
  "stateHistory (transitionState_updateData t p now doc) = stateHistory t @
            [\<lparr>fromState = state t, toState = tp_newState p, timestamp = now,
              reason = tp_reason p, source = tp_source p,
              metadata = tp_metadata p\<rparr>]"
  "updatedAt (transitionState_updateData t p now doc) = now"
  by (simp_all add: transitionState_updateData_def Let_def)

lemma transitionState_not_found:
  "listFirst (\<lambda>d. transactionId d = tp_transactionId p) (transactions_india w) = None \<Longrightarrow>
   transitionState w now p = (w, Inl ''Transaction not found'')"
  by (simp add: transitionState_def transitionState_at_def transitionState_read_def)

lemma transitionState_throws:
  "listFirst (\<lambda>d. transactionId d = tp_transactionId p) (transactions_india w) = Some (i, t) \<Longrightarrow>
   isValidTransition (state t) (tp_newState p) = Inl m \<Longrightarrow>
   transitionState w now p = (w, Inl m)"
  by (simp add: transitionState_def transitionState_at_def transitionState_read_def)

lemma transitionState_invalid:
  "listFirst (\<lambda>d. transactionId d = tp_transactionId p) (transactions_india w) = Some (i, t) \<Longrightarrow>
   isValidTransition (state t) (tp_newState p) = Inr False \<Longrightarrow>
   transitionState w now p =
     (w, Inl (''Invalid state transition from '' @ state t @ '' to '' @ tp_newState p))"
  by (simp add: transitionState_def transitionState_at_def transitionState_read_def)

lemma transitionState_valid:
  assumes "listFirst (\<lambda>d. transactionId d = tp_transactionId p) (transactions_india w) = Some (i, t)"
    and "isValidTransition (state t) (tp_newState p) = Inr True"
  shows "transitionState w now p =
     (w\<lparr>transactions_india := (transactions_india w)[i := transitionState_updateData t p now t]\<rparr>,
      Inr (transitionState_updateData t p now t))"
proof -
  from listFirst_Some[OF assms(1)] have "i < length (transactions_india w)" "transactions_india w ! i = t"
    by simp_all
  with assms show ?thesis
    by (simp add: transitionState_def transitionState_at_def transitionState_read_def
          updateDocument_def)
qed

lemma transitionState_result:
  "(\<exists>m. transitionState w now p = (w, Inl m)) \<or>
   (\<exists>i t. listFirst (\<lambda>d. transactionId d = tp_transactionId p) (transactions_india w) = Some (i, t)
      \<and> isValidTransition (state t) (tp_newState p) = Inr True
      \<and> transitionState w now p =
            (w\<lparr>transactions_india :=
                 (transactions_india w)[i := transitionState_updateData t p now t]\<rparr>,
             Inr (transitionState_updateData t p now t)))"
proof (cases "listFirst (\<lambda>d. transactionId d = tp_transactionId p) (transactions_india w)")
  case None
  from transitionState_not_found[OF this] show ?thesis by blast
next
  case (Some a)
  obtain i t where a: "a = (i, t)" by (cases a)
  note f = Some[unfolded a]
  show ?thesis
  proof (cases "isValidTransition (state t) (tp_newState p)")
    case (Inl m)
    from transitionState_throws[OF f Inl] show ?thesis by blast
  next
    case (Inr b)
    show ?thesis
    proof (cases b)
      case True
      with Inr have "isValidTransition (state t) (tp_newState p) = Inr True" by simp
      from transitionState_valid[OF f this] f this show ?thesis by blast
    next
      case False
      with Inr have "isValidTransition (state t) (tp_newState p) = Inr False" by simp
      from transitionState_invalid[OF f this] show ?thesis by blast
    qed
  qed
qed

lemma transitionState_frame:
  "webhook_events (fst (transitionState w now p)) = webhook_events w
   \<and> payout_calls (fst (transitionState w now p)) = payout_calls w
   \<and> razorpay_fund_accounts (fst (transitionState w now p)) = razorpay_fund_accounts w
   \<and> length (transactions_india (fst (transitionState w now p))) = length (transactions_india w)"
  using transitionState_result[of w now p] by (elim disjE exE conjE) simp_all

lemma transitionState_terminal:
  assumes "j < length (transactions_india w)"
    and "state (transactions_india w ! j) \<in> spec_terminal_states"
  shows "transactions_india (fst (transitionState w now p)) ! j = transactions_india w ! j"
proof -
  from transitionState_result[of w now p] show ?thesis
  proof (elim disjE exE conjE)
    fix m assume "transitionState w now p = (w, Inl m)"
    then show ?thesis by simp
  next
    fix i t
    assume f: "listFirst (\<lambda>d. transactionId d = tp_transactionId p) (transactions_india w) = Some (i, t)"
      and v: "isValidTransition (state t) (tp_newState p) = Inr True"
      and w': "transitionState w now p = (w\<lparr>transactions_india :=
                      (transactions_india w)[i := transitionState_updateData t p now t]\<rparr>,
                 Inr (transitionState_updateData t p now t))"
    from listFirst_Some[OF f] have it: "transactions_india w ! i = t" by simp
    have "i \<noteq> j"
    proof
      assume "i = j"
      with it assms(2) have "state t \<in> spec_terminal_states" by simp
      from isValidTransition_spec_terminal[OF this] v show False by simp
    qed
    with w' show ?thesis by simp
  qed
qed

section \<open>Claim C3: the state-transition write\<close>

lemma transitionState_at_not_valid:
  assumes "listFirst (\<lambda>d. transactionId d = tp_transactionId p) (transactions_india w_read) = Some (i, t)"
    and "isValidTransition (state t) (tp_newState p) \<noteq> Inr True"
  shows "fst (transitionState_at w_read w_write now p) = w_write
         \<and> isl (snd (transitionState_at w_read w_write now p))"
proof (cases "isValidTransition (state t) (tp_newState p)")
  case (Inl m)
  with assms(1) show ?thesis
    by (simp add: transitionState_at_def transitionState_read_def)
next
  case (Inr b)
  with assms(2) have "isValidTransition (state t) (tp_newState p) = Inr False" by simp
  with assms(1) show ?thesis
    by (simp add: transitionState_at_def transitionState_read_def)
qed

lemma transitionState_at_valid:
  assumes "listFirst (\<lambda>d. transactionId d = tp_transactionId p) (transactions_india w_read) = Some (i, t)"
    and "isValidTransition (state t) (tp_newState p) = Inr True"
    and "i < length (transactions_india w_write)"
  shows "transitionState_at w_read w_write now p =
     (w_write\<lparr>transactions_india :=
         (transactions_india w_write)[i := transitionState_updateData t p now (transactions_india w_write ! i)]\<rparr>,
      Inr (transitionState_updateData t p now (transactions_india w_write ! i)))"
  using assms
  by (simp add: transitionState_at_def transitionState_read_def updateDocument_def)

text \<open>
  Claim C3, as stated: the write takes an expected current state and fails with a Conflict
  error, leaving the record unchanged, whenever the stored state at write time differs
  from it. \<^verbatim>\<open>transitionState\<close> has no such parameter and no such check. Here the
  caller read the transaction in pending; before its write another writer moved it to
  failed; the write succeeds all the same and the stored state becomes completed.
\<close>

theorem transitionState_conflict_counterexample:
  "state (transactions_india world_pending ! 0) = ''pending''
   \<and> state (transactions_india world_failed_meanwhile ! 0) = ''failed''
   \<and> \<not> isl (snd (transitionState_at world_pending world_failed_meanwhile 3000 params_completed))
   \<and> state (transactions_india
        (fst (transitionState_at world_pending world_failed_meanwhile 3000 params_completed)) ! 0)
       = ''completed''"
  by code_simp

text \<open>
  Claim C3, amended: \<^verbatim>\<open>transitionState\<close> takes no expected state and reports no
  conflict. It validates the transition from the state it read: when that transition is
  not valid it returns an error and writes nothing; when it is valid it writes in a single
  \<^verbatim>\<open>updateDocument\<close> call, whatever the stored state is at write time, the new state,
  the state it read as previous state, and the history it read with the new transition
  record appended (with the timestamps that go with the target state).
\<close>

theorem transitionState_write_is_unconditional:
  assumes "listFirst (\<lambda>d. transactionId d = tp_transactionId params) (transactions_india w_read)
             = Some (i, transaction)"
    and "i < length (transactions_india w_write)"
  shows "(isValidTransition (state transaction) (tp_newState params) \<noteq> Inr True \<longrightarrow>
            fst (transitionState_at w_read w_write now params) = w_write
            \<and> isl (snd (transitionState_at w_read w_write now params)))
       \<and> (isValidTransition (state transaction) (tp_newState params) = Inr True \<longrightarrow>
            transitionState_at w_read w_write now params =
              (w_write\<lparr>transactions_india := (transactions_india w_write)
                 [i := transitionState_updateData transaction params now
                         (transactions_india w_write ! i)]\<rparr>,
               Inr (transitionState_updateData transaction params now
                      (transactions_india w_write ! i)))
            \<and> state (transitionState_updateData transaction params now
                       (transactions_india w_write ! i)) = tp_newState params
            \<and> previousState (transitionState_updateData transaction params now
                       (transactions_india w_write ! i)) = Some (state transaction)
            \<and> stateHistory (transitionState_updateData transaction params now
                       (transactions_india w_write ! i))
                = stateHistory transaction @
                    [\<lparr>fromState = state transaction, toState = tp_newState params,
                      timestamp = now, reason = tp_reason params, source = tp_source params,
                      metadata = tp_metadata params\<rparr>])"
  using transitionState_at_not_valid[OF assms(1)] transitionState_at_valid[OF assms(1) _ assms(2)]
    transitionState_updateData_state
  by blast

theorem transitionState_write_is_unconditional_witness:
  "listFirst (\<lambda>d. transactionId d = tp_transactionId params_completed)
       (transactions_india world_pending) = Some (0, tx_pending)
   \<and> 0 < length (transactions_india world_failed_meanwhile)
   \<and> isValidTransition (state tx_pending) (tp_newState params_completed) = Inr True
   \<and> state (transactions_india world_failed_meanwhile ! 0) = ''failed''
   \<and> snd (transitionState_at world_pending world_failed_meanwhile 3000 params_completed)
       = Inr (transitionState_updateData tx_pending params_completed 3000
                (transactions_india world_failed_meanwhile ! 0))
   \<and> state (transitionState_updateData tx_pending params_completed 3000
                (transactions_india world_failed_meanwhile ! 0)) = ''completed''
   \<and> isValidTransition (state tx_pending) ''queued'' \<noteq> Inr True
   \<and> fst (transitionState_at world_pending world_failed_meanwhile 3000
             (params_completed\<lparr>tp_newState := ''queued''\<rparr>)) = world_failed_meanwhile"
proof -
  have f: "listFirst (\<lambda>d. transactionId d = tp_transactionId params_completed)
       (transactions_india world_pending) = Some (0, tx_pending)"
    by code_simp
  have f': "listFirst (\<lambda>d. transactionId d = tp_transactionId (params_completed\<lparr>tp_newState := ''queued''\<rparr>))
       (transactions_india world_pending) = Some (0, tx_pending)"
    by code_simp
  have l: "0 < length (transactions_india world_failed_meanwhile)"
    by code_simp
  have v: "isValidTransition (state tx_pending) (tp_newState params_completed) = Inr True"
    by code_simp
  have nv: "isValidTransition (state tx_pending) (tp_newState (params_completed\<lparr>tp_newState := ''queued''\<rparr>)) \<noteq> Inr True"
    by code_simp
  have s: "state (transactions_india world_failed_meanwhile ! 0) = ''failed''"
    by code_simp
  have c: "tp_newState params_completed = ''completed''"
    by code_simp
  from transitionState_write_is_unconditional[OF f l, of 3000] v c
  have a: "snd (transitionState_at world_pending world_failed_meanwhile 3000 params_completed)
       = Inr (transitionState_updateData tx_pending params_completed 3000
                (transactions_india world_failed_meanwhile ! 0))
     \<and> state (transitionState_updateData tx_pending params_completed 3000
                (transactions_india world_failed_meanwhile ! 0)) = ''completed''"
    by simp
  from transitionState_write_is_unconditional[OF f' l, of 3000] nv
  have b: "fst (transitionState_at world_pending world_failed_meanwhile 3000
             (params_completed\<lparr>tp_newState := ''queued''\<rparr>)) = world_failed_meanwhile"
    by blast
  from nv have nv': "isValidTransition (state tx_pending) ''queued'' \<noteq> Inr True" by simp
  from f l v s a b nv' show ?thesis by blast
qed

section \<open>Retry, reconciliation and webhook lemmas\<close>

lemma retryTransaction_not_found:
  "listFirst (\<lambda>d. transactionId d = tid) (transactions_india w) = None \<Longrightarrow>
   retryTransaction e w now tid = (w, retry_error ''Transaction not found'')"
  by (simp add: retryTransaction_def)

lemma retryTransaction_not_retryable:
  "listFirst (\<lambda>d. transactionId d = tid) (transactions_india w) = Some (i, t) \<Longrightarrow>
   state t \<notin> set [''submitted'', ''failed''] \<Longrightarrow>
   retryTransaction e w now tid =
     (w, retry_error (''Transaction in '' @ state t @ '' state is not retryable''))"
  by (simp add: retryTransaction_def)

lemma retryTransaction_max_reached:
  assumes "listFirst (\<lambda>d. transactionId d = tid) (transactions_india w) = Some (i, t)"
    and "state t \<in> set [''submitted'', ''failed'']"
    and "retryCount t \<ge> RETRY_CONFIG_maxRetries"
  shows "retryTransaction e w now tid = (w, retry_error ''Maximum retry attempts reached'')"
proof (cases "state t = ''submitted''")
  case True
  with assms(1,3) show ?thesis by (simp add: retryTransaction_def)
next
  case False
  with assms(2) have "state t = ''failed''" by simp
  with assms(1,3) show ?thesis by (simp add: retryTransaction_def)
qed

lemma retryTransaction_retryable:
  assumes "listFirst (\<lambda>d. transactionId d = tid) (transactions_india w) = Some (i, t)"
    and "retryable t"
  shows "retryTransaction e w now tid =
     (case createPayout e (payout_calls w) (retry_request e t tid (retryCount t + 1)) of
        Inr p \<Rightarrow>
          (w\<lparr>payout_calls := payout_calls w @ [retry_request e t tid (retryCount t + 1)],
             transactions_india :=
               (transactions_india w)[i := retry_success_update t p (retryCount t + 1) now t]\<rparr>,
           \<lparr>rr_success = True,
            rr_newState = Some (if payout_status p = ''processed'' then ''completed''
                                else payout_status p),
            rr_error = None\<rparr>)
      | Inl m \<Rightarrow>
          (w\<lparr>payout_calls := payout_calls w @ [retry_request e t tid (retryCount t + 1)],
             transactions_india :=
               (transactions_india w)[i := retry_failure_update t m (retryCount t + 1) now t]\<rparr>,
           \<lparr>rr_success = False,
            rr_newState = (if retryCount t + 1 \<ge> RETRY_CONFIG_maxRetries
                           then Some ''failed'' else None),
            rr_error = Some m\<rparr>))"
proof -
  from listFirst_Some[OF assms(1)]
  have it: "i < length (transactions_india w)" "transactions_india w ! i = t" by simp_all
  from assms(2) have c: "\<not> RETRY_CONFIG_maxRetries \<le> retryCount t"
    by (simp add: retryable_def)
  show ?thesis
  proof (cases "state t = ''submitted''")
    case True
    with assms(1) it c show ?thesis
      by (simp add: retryTransaction_def updateDocument_def Let_def split: sum.splits)
  next
    case False
    with assms(2) have "state t = ''failed''" by (simp add: retryable_def)
    with assms(1) it c show ?thesis
      by (simp add: retryTransaction_def updateDocument_def Let_def split: sum.splits)
  qed
qed

lemma retryTransaction_accepted:
  assumes "listFirst (\<lambda>d. transactionId d = tid) (transactions_india w) = Some (i, t)"
    and "retryable t"
    and "createPayout e (payout_calls w) (retry_request e t tid (retryCount t + 1)) = Inr p"
  shows "transactions_india (fst (retryTransaction e w now tid))
           = (transactions_india w)[i := retry_success_update t p (retryCount t + 1) now t]"
    and "payout_calls (fst (retryTransaction e w now tid))
           = payout_calls w @ [retry_request e t tid (retryCount t + 1)]"
    and "webhook_events (fst (retryTransaction e w now tid)) = webhook_events w"
    and "razorpay_fund_accounts (fst (retryTransaction e w now tid)) = razorpay_fund_accounts w"
    and "snd (retryTransaction e w now tid) =
           \<lparr>rr_success = True,
            rr_newState = Some (if payout_status p = ''processed'' then ''completed''
                                else payout_status p),
            rr_error = None\<rparr>"
  using assms(3) by (simp_all add: retryTransaction_retryable[OF assms(1,2)])

lemma retryTransaction_refused:
  assumes "listFirst (\<lambda>d. transactionId d = tid) (transactions_india w) = Some (i, t)"
    and "retryable t"
    and "createPayout e (payout_calls w) (retry_request e t tid (retryCount t + 1)) = Inl m"
  shows "transactions_india (fst (retryTransaction e w now tid))
           = (transactions_india w)[i := retry_failure_update t m (retryCount t + 1) now t]"
    and "payout_calls (fst (retryTransaction e w now tid))
           = payout_calls w @ [retry_request e t tid (retryCount t + 1)]"
    and "webhook_events (fst (retryTransaction e w now tid)) = webhook_events w"
    and "razorpay_fund_accounts (fst (retryTransaction e w now tid)) = razorpay_fund_accounts w"
    and "snd (retryTransaction e w now tid) =
           \<lparr>rr_success = False,
            rr_newState = (if retryCount t + 1 \<ge> RETRY_CONFIG_maxRetries
                           then Some ''failed'' else None),
            rr_error = Some m\<rparr>"
  using assms(3) by (simp_all add: retryTransaction_retryable[OF assms(1,2)])

text \<open>What one retry may change: nothing, or the one document it found, which was retryable.\<close>

lemma retryTransaction_shape:
  "fst (retryTransaction e w now tid) = w \<or>
   (\<exists>i t t'. listFirst (\<lambda>d. transactionId d = tid) (transactions_india w) = Some (i, t)
      \<and> retryable t
      \<and> transactions_india (fst (retryTransaction e w now tid)) = (transactions_india w)[i := t']
      \<and> webhook_events (fst (retryTransaction e w now tid)) = webhook_events w)"
proof (cases "listFirst (\<lambda>d. transactionId d = tid) (transactions_india w)")
  case None
  from retryTransaction_not_found[OF this] show ?thesis by simp
next
  case (Some a)
  obtain i t where a: "a = (i, t)" by (cases a)
  note f = Some[unfolded a]
  show ?thesis
  proof (cases "retryable t")
    case True
    show ?thesis
    proof (cases "createPayout e (payout_calls w) (retry_request e t tid (retryCount t + 1))")
      case (Inl m)
      from retryTransaction_refused(1,3)[OF f True Inl] f True show ?thesis by blast
    next
      case (Inr p)
      from retryTransaction_accepted(1,3)[OF f True Inr] f True show ?thesis by blast
    qed
  next
    case False
    show ?thesis
    proof (cases "state t \<in> set [''submitted'', ''failed'']")
      case True
      with False have "retryCount t \<ge> RETRY_CONFIG_maxRetries" by (auto simp add: retryable_def)
      from retryTransaction_max_reached[OF f True this] show ?thesis by simp
    next
      case False
      from retryTransaction_not_retryable[OF f False] show ?thesis by simp
    qed
  qed
qed

lemma retryTransaction_unchanged:
  assumes "j < length (transactions_india w)"
    and "\<not> retryable (transactions_india w ! j)"
  shows "transactions_india (fst (retryTransaction e w now tid)) ! j = transactions_india w ! j"
    and "length (transactions_india (fst (retryTransaction e w now tid)))
           = length (transactions_india w)"
proof -
  from retryTransaction_shape[of e w now tid]
  have "transactions_india (fst (retryTransaction e w now tid)) ! j = transactions_india w ! j
        \<and> length (transactions_india (fst (retryTransaction e w now tid)))
           = length (transactions_india w)"
  proof (elim disjE exE conjE)
    assume "fst (retryTransaction e w now tid) = w"
    then show ?thesis by simp
  next
    fix i t t'
    assume f: "listFirst (\<lambda>d. transactionId d = tid) (transactions_india w) = Some (i, t)"
      and r: "retryable t"
      and u: "transactions_india (fst (retryTransaction e w now tid)) = (transactions_india w)[i := t']"
    from listFirst_Some[OF f] have "transactions_india w ! i = t" by simp
    with r assms(2) have "i \<noteq> j" by auto
    with u show ?thesis by simp
  qed
  then show "transactions_india (fst (retryTransaction e w now tid)) ! j = transactions_india w ! j"
    and "length (transactions_india (fst (retryTransaction e w now tid)))
           = length (transactions_india w)"
    by simp_all
qed

lemma listFirst_Some_iff:
  "listFirst P docs = Some (i, d) \<longleftrightarrow>
     i < length docs \<and> docs ! i = d \<and> P d \<and> (\<forall>j<i. \<not> P (docs ! j))"
  unfolding listFirst_def
  by (auto simp add: find_Some_iff nth_enumerate_eq)

lemma listFirst_update:
  assumes "listFirst P docs = Some (i, d)" and "P d'"
  shows "listFirst P (docs[i := d']) = Some (i, d')"
  using assms by (simp add: listFirst_Some_iff)

lemma retry_failure_update_fields:
  "transactionId (retry_failure_update t m n now doc) = transactionId doc"
  "idempotencyKey (retry_failure_update t m n now doc) = idempotencyKey doc"
  "retryCount (retry_failure_update t m n now doc) = n"
  "state (retry_failure_update t m n now doc)
     = (if n \<ge> RETRY_CONFIG_maxRetries then ''failed'' else state t)"
  "nextRetryAt (retry_failure_update t m n now doc)
     = (if n \<ge> RETRY_CONFIG_maxRetries then None else Some (now + calculateRetryDelay n))"
  "n \<ge> RETRY_CONFIG_maxRetries \<Longrightarrow> failedAt (retry_failure_update t m n now doc) = Some now"
  by (simp_all add: retry_failure_update_def Let_def)

lemma retry_success_update_fields:
  "transactionId (retry_success_update t p n now doc) = transactionId doc"
  "idempotencyKey (retry_success_update t p n now doc) = idempotencyKey doc"
  "retryCount (retry_success_update t p n now doc) = n"
  "state (retry_success_update t p n now doc)
     = (if payout_status p = ''processed'' then ''completed'' else payout_status p)"
  by (simp_all add: retry_success_update_def Let_def)

lemma calculateRetryDelay_values:
  "calculateRetryDelay 0 = 60000" "calculateRetryDelay 1 = 120000"
  "calculateRetryDelay 2 = 240000"
  "calculateRetryDelay (Suc 0) = 120000" "calculateRetryDelay (Suc (Suc 0)) = 240000"
  by (simp_all add: calculateRetryDelay_def RETRY_CONFIG_initialDelayMs_def
        RETRY_CONFIG_backoffMultiplier_def RETRY_CONFIG_maxDelayMs_def Let_def)

text \<open>One failed retry of the transaction stored at position n.\<close>

lemma retry_failure_step:
  assumes f: "listFirst (\<lambda>d. transactionId d = tid) (transactions_india w) = Some (n, d)"
    and r: "state d = ''submitted''" "retryCount d < RETRY_CONFIG_maxRetries"
    and fails: "\<forall>calls request. isl (createPayout e calls request)"
  shows "\<exists>d'. listFirst (\<lambda>d. transactionId d = tid)
                (transactions_india (fst (retryTransaction e w now tid))) = Some (n, d')
           \<and> retryCount d' = retryCount d + 1
           \<and> state d' = (if retryCount d + 1 \<ge> RETRY_CONFIG_maxRetries then ''failed''
                          else ''submitted'')
           \<and> nextRetryAt d' = (if retryCount d + 1 \<ge> RETRY_CONFIG_maxRetries then None
                                else Some (now + calculateRetryDelay (retryCount d + 1)))
           \<and> (retryCount d + 1 \<ge> RETRY_CONFIG_maxRetries \<longrightarrow> failedAt d' = Some now)"
proof -
  from r have ry: "retryable d" by (simp add: retryable_def)
  from fails obtain m where
    m: "createPayout e (payout_calls w) (retry_request e d tid (retryCount d + 1)) = Inl m"
    by (metis isl_def)
  let ?d' = "retry_failure_update d m (retryCount d + 1) now d"
  from listFirst_Some[OF f] have td: "transactionId d = tid" by simp
  have u: "transactions_india (fst (retryTransaction e w now tid)) = (transactions_india w)[n := ?d']"
    by (rule retryTransaction_refused(1)[OF f ry m])
  have "transactionId ?d' = tid" using td by (simp add: retry_failure_update_fields)
  from listFirst_update[OF f, of ?d', OF this] u
  have "listFirst (\<lambda>d. transactionId d = tid)
                (transactions_india (fst (retryTransaction e w now tid))) = Some (n, ?d')"
    by simp
  moreover have "retryCount ?d' = retryCount d + 1"
    by (simp add: retry_failure_update_fields)
  moreover have "state ?d' = (if retryCount d + 1 \<ge> RETRY_CONFIG_maxRetries then ''failed''
                          else ''submitted'')"
    using r(1) by (simp add: retry_failure_update_fields)
  moreover have "nextRetryAt ?d' = (if retryCount d + 1 \<ge> RETRY_CONFIG_maxRetries then None
                                else Some (now + calculateRetryDelay (retryCount d + 1)))"
    by (simp add: retry_failure_update_fields)
  moreover have "retryCount d + 1 \<ge> RETRY_CONFIG_maxRetries \<longrightarrow> failedAt ?d' = Some now"
    by (simp add: retry_failure_update_fields)
  ultimately show ?thesis by blast
qed

text \<open>A submission whose processor call fails.\<close>

lemma initiate_failure:
  assumes "validatePayoutAmount (ip_mode params) (ip_amountPaise params) = None"
    and "map_of (razorpay_fund_accounts w) (ip_fundAccountRecordId params) = Some fundAccount"
    and "fa_active fundAccount" and "fa_userId fundAccount = ip_userId params"
    and fails: "\<forall>calls request. isl (createPayout e calls request)"
  shows "\<exists>d. transactions_india (fst (initiatePayoutIndia e w now key tid params))
               = transactions_india w @ [d]
           \<and> transactionId d = tid \<and> state d = ''submitted'' \<and> retryCount d = 0
           \<and> nextRetryAt d = Some (now + 60000)"
proof -
  let ?first = "\<lparr>fromState = ''initiated'', toState = ''initiated'', timestamp = now,
                         reason = None, source = SourceUser, metadata = None\<rparr>"
  let ?request = "\<lparr>account_number = RAZORPAY_ACCOUNT_NUMBER e,
                   fund_account_id = Some (fa_razorpayFundAccountId fundAccount),
                   req_amount = ip_amountPaise params,
                   req_mode = ip_mode params,
                   req_purpose = ip_purpose params,
                   queue_if_low_balance = True,
                   reference_id = key,
                   req_narration =
                     (if truthy (ip_narration params) then ip_narration params
                      else Some (''Payment to '' @ beneficiary_label fundAccount)),
                   req_notes = [(''transactionId'', tid),
                                (''userId'', ip_userId params)]\<rparr>"
  from fails obtain m where
    m: "createPayout e (payout_calls w) ?request = Inl m"
    by (metis isl_def)
  from assms(1-4) m show ?thesis
    by (simp add: initiatePayoutIndia_def Let_def updateDocument_def nth_append)
qed

lemma reconcileTransaction_terminal:
  assumes "j < length (transactions_india w)"
    and "state (transactions_india w ! j) \<in> spec_terminal_states"
  shows "transactions_india (fst (reconcileTransaction e w now tid)) ! j = transactions_india w ! j"
  by (simp add: reconcileTransaction_def Let_def case_prod_unfold
        transitionState_terminal[OF assms]
        split: option.split sum.split bool.split)

lemma reconcileTransaction_length:
  "length (transactions_india (fst (reconcileTransaction e w now tid)))
     = length (transactions_india w)"
  by (simp add: reconcileTransaction_def Let_def case_prod_unfold transitionState_frame
        split: option.split sum.split bool.split)

lemma reconcile_loop_terminal:
  assumes "j < length (transactions_india w)"
    and "state (transactions_india w ! j) \<in> spec_terminal_states"
  shows "transactions_india (fst (reconcile_loop e now ts w results)) ! j = transactions_india w ! j"
  using assms
proof (induction ts arbitrary: w results)
  case Nil
  then show ?case by simp
next
  case (Cons t ts)
  let ?w' = "fst (reconcileTransaction e w now (transactionId t))"
  have k: "transactions_india ?w' ! j = transactions_india w ! j"
    by (rule reconcileTransaction_terminal[OF Cons.prems])
  have l: "length (transactions_india ?w') = length (transactions_india w)"
    by (rule reconcileTransaction_length)
  from Cons.prems k l have p: "j < length (transactions_india ?w')"
    "state (transactions_india ?w' ! j) \<in> spec_terminal_states"
    by simp_all
  from Cons.IH[OF p] k show ?case
    by (simp add: case_prod_unfold Let_def)
qed

lemma processRetries_loop_unchanged:
  assumes "j < length (transactions_india w)"
    and "\<not> retryable (transactions_india w ! j)"
  shows "transactions_india (fst (processRetries_loop e now ts w acc)) ! j = transactions_india w ! j"
  using assms
proof (induction ts arbitrary: w acc)
  case Nil
  then show ?case by simp
next
  case (Cons t ts)
  let ?w' = "fst (retryTransaction e w now (transactionId t))"
  from retryTransaction_unchanged[OF Cons.prems, of e now "transactionId t"]
  have k: "transactions_india ?w' ! j = transactions_india w ! j"
    "length (transactions_india ?w') = length (transactions_india w)"
    by simp_all
  with Cons.prems have p: "j < length (transactions_india ?w')" "\<not> retryable (transactions_india ?w' ! j)"
    by simp_all
  from Cons.IH[OF p] k(1) show ?case
    by (simp add: case_prod_unfold Let_def)
qed

lemma payout_fields_update_state:
  "state (payout_fields_update p d) = state d"
  by (simp add: payout_fields_update_def Let_def)

lemma processPayoutEvent_webhook_events:
  "webhook_events (fst (processPayoutEvent w now ev)) = webhook_events w"
  by (simp add: processPayoutEvent_def Let_def case_prod_unfold transitionState_frame
        split: option.split sum.split bool.split)

lemma processPayoutEvent_length:
  "length (transactions_india (fst (processPayoutEvent w now ev))) = length (transactions_india w)"
  by (simp add: processPayoutEvent_def Let_def case_prod_unfold transitionState_frame
        updateDocument_def split: option.split sum.split bool.split)

lemma processPayoutEvent_terminal:
  assumes "j < length (transactions_india w)"
    and "state (transactions_india w ! j) \<in> spec_terminal_states"
  shows "state (transactions_india (fst (processPayoutEvent w now ev)) ! j)
           = state (transactions_india w ! j)"
  using assms(1)
  by (simp add: processPayoutEvent_def Let_def case_prod_unfold transitionState_frame
        transitionState_terminal[OF assms] updateDocument_def nth_list_update
        payout_fields_update_state
        split: option.split sum.split bool.split)

lemma fresh_processing_webhook_events:
  "webhook_events (fst (fresh_processing e w now rawBody ev))
     = webhook_events w @ [fresh_record e ev rawBody now]"
  by (simp add: fresh_processing_def Let_def processPayoutEvent_webhook_events)

lemma POST_duplicate:
  assumes "sig \<noteq> []" and "verifyWebhookSignature e rawBody sig = Some True"
    and "JSON_parse e rawBody = Some ev"
    and "filter (\<lambda>r. eventId r = generateEventId e ev) (webhook_events w) \<noteq> []"
  shows "POST e w now rawBody (Some sig) = (w, response_already_processed (generateEventId e ev))"
  using assms by (simp add: POST_def Let_def)

lemma POST_fresh:
  assumes "sig \<noteq> []" and "verifyWebhookSignature e rawBody sig = Some True"
    and "JSON_parse e rawBody = Some ev"
    and "filter (\<lambda>r. eventId r = generateEventId e ev) (webhook_events w) = []"
  shows "transactions_india (fst (POST e w now rawBody (Some sig)))
           = transactions_india (fst (fresh_processing e w now rawBody ev))"
    and "webhook_events (fst (POST e w now rawBody (Some sig)))
           = webhook_events w @
               [event_record_update (snd (fresh_processing e w now rawBody ev)) now
                  (fresh_record e ev rawBody now)]"
    and "resp_message (snd (POST e w now rawBody (Some sig)))
           = Some (if pr_success (snd (fresh_processing e w now rawBody ev))
                   then ''Event processed successfully''
                   else ''Event received but processing failed'')"
proof -
  note defs = POST_def Let_def case_prod_unfold fresh_processing_def fresh_record_def
    updateDocument_def processPayoutEvent_webhook_events
  show "transactions_india (fst (POST e w now rawBody (Some sig)))
           = transactions_india (fst (fresh_processing e w now rawBody ev))"
    using assms by (cases "isPayoutEvent (event ev)") (simp_all add: defs)
  show "webhook_events (fst (POST e w now rawBody (Some sig)))
           = webhook_events w @
               [event_record_update (snd (fresh_processing e w now rawBody ev)) now
                  (fresh_record e ev rawBody now)]"
    using assms by (cases "isPayoutEvent (event ev)") (simp_all add: defs)
  show "resp_message (snd (POST e w now rawBody (Some sig)))
           = Some (if pr_success (snd (fresh_processing e w now rawBody ev))
                   then ''Event processed successfully''
                   else ''Event received but processing failed'')"
    using assms by (cases "isPayoutEvent (event ev)") (simp_all add: defs)
qed

lemma POST_unchanged_unless_fresh:
  "fst (POST e w now rawBody signature) = w \<or>
   (\<exists>sig ev. signature = Some sig \<and> sig \<noteq> [] \<and> verifyWebhookSignature e rawBody sig = Some True
      \<and> JSON_parse e rawBody = Some ev
      \<and> filter (\<lambda>r. eventId r = generateEventId e ev) (webhook_events w) = [])"
  by (simp add: POST_def Let_def split: option.split bool.split)

section \<open>Claim C5: backoff schedule and terminal failure\<close>

text \<open>
  Claim C5. A submission is made at time \<open>t0\<close> and the processor call fails; the retries
  run at \<open>t1\<close>, \<open>t2\<close>, \<open>t3\<close> and fail as well. Then the transaction is scheduled
  60 s after \<open>t0\<close>, 120 s after \<open>t1\<close> and 240 s after \<open>t2\<close>, each delay being
  \<open>min (60000 * 2 ^ retryCount) 3600000\<close> milliseconds for the retry count stored with
  it, and right after the third failed retry its state is failed, \<open>failedAt\<close> is the time
  of that retry and \<open>nextRetryAt\<close> is cleared.
\<close>

theorem backoff_schedule_then_failed:
  assumes "validatePayoutAmount (ip_mode params) (ip_amountPaise params) = None"
    and "map_of (razorpay_fund_accounts w0) (ip_fundAccountRecordId params) = Some fundAccount"
    and "fa_active fundAccount" and "fa_userId fundAccount = ip_userId params"
    and fresh: "\<forall>d \<in> set (transactions_india w0). transactionId d \<noteq> tid"
    and fails: "\<forall>calls request. isl (createPayout e calls request)"
  shows "let n = length (transactions_india w0);
             w1 = fst (initiatePayoutIndia e w0 t0 key tid params);
             w2 = fst (retryTransaction e w1 t1 tid);
             w3 = fst (retryTransaction e w2 t2 tid);
             w4 = fst (retryTransaction e w3 t3 tid)
         in state (transactions_india w1 ! n) = ''submitted''
          \<and> retryCount (transactions_india w1 ! n) = 0
          \<and> nextRetryAt (transactions_india w1 ! n) = Some (t0 + 60000)
          \<and> state (transactions_india w2 ! n) = ''submitted''
          \<and> retryCount (transactions_india w2 ! n) = 1
          \<and> nextRetryAt (transactions_india w2 ! n) = Some (t1 + 120000)
          \<and> state (transactions_india w3 ! n) = ''submitted''
          \<and> retryCount (transactions_india w3 ! n) = 2
          \<and> nextRetryAt (transactions_india w3 ! n) = Some (t2 + 240000)
          \<and> state (transactions_india w4 ! n) = ''failed''
          \<and> retryCount (transactions_india w4 ! n) = 3
          \<and> failedAt (transactions_india w4 ! n) = Some t3
          \<and> nextRetryAt (transactions_india w4 ! n) = None
          \<and> calculateRetryDelay 0 = 60000 \<and> calculateRetryDelay 1 = 120000
          \<and> calculateRetryDelay 2 = 240000
          \<and> (\<forall>k. calculateRetryDelay k = min (60000 * 2 ^ k) 3600000)"
proof -
  define n where "n = length (transactions_india w0)"
  define w1 where "w1 = fst (initiatePayoutIndia e w0 t0 key tid params)"
  define w2 where "w2 = fst (retryTransaction e w1 t1 tid)"
  define w3 where "w3 = fst (retryTransaction e w2 t2 tid)"
  define w4 where "w4 = fst (retryTransaction e w3 t3 tid)"
  from initiate_failure[OF assms(1-4) fails, of t0 key tid] obtain d1 where
    d1: "transactions_india w1 = transactions_india w0 @ [d1]" "transactionId d1 = tid"
      "state d1 = ''submitted''" "retryCount d1 = 0" "nextRetryAt d1 = Some (t0 + 60000)"
    unfolding w1_def by blast
  have f1: "listFirst (\<lambda>d. transactionId d = tid) (transactions_india w1) = Some (n, d1)"
    unfolding d1(1) n_def using fresh d1(2) by (intro listFirst_append_fresh) simp_all
  have c1: "retryCount d1 < RETRY_CONFIG_maxRetries"
    using d1(4) by (simp add: RETRY_CONFIG_maxRetries_def)
  from retry_failure_step[OF f1 d1(3) c1 fails, of t1] obtain d2 where
    d2: "listFirst (\<lambda>d. transactionId d = tid) (transactions_india w2) = Some (n, d2)"
      "retryCount d2 = 1" "state d2 = ''submitted''"
      "nextRetryAt d2 = Some (t1 + 120000)"
    unfolding w2_def using d1(4)
    by (auto simp add: RETRY_CONFIG_maxRetries_def calculateRetryDelay_values)
  have c2: "retryCount d2 < RETRY_CONFIG_maxRetries"
    using d2(2) by (simp add: RETRY_CONFIG_maxRetries_def)
  from retry_failure_step[OF d2(1) d2(3) c2 fails, of t2] obtain d3 where
    d3: "listFirst (\<lambda>d. transactionId d = tid) (transactions_india w3) = Some (n, d3)"
      "retryCount d3 = 2" "state d3 = ''submitted''"
      "nextRetryAt d3 = Some (t2 + 240000)"
    unfolding w3_def using d2(2)
    by (auto simp add: RETRY_CONFIG_maxRetries_def calculateRetryDelay_values)
  have c3: "retryCount d3 < RETRY_CONFIG_maxRetries"
    using d3(2) by (simp add: RETRY_CONFIG_maxRetries_def)
  from retry_failure_step[OF d3(1) d3(3) c3 fails, of t3] obtain d4 where
    d4: "listFirst (\<lambda>d. transactionId d = tid) (transactions_india w4) = Some (n, d4)"
      "retryCount d4 = 3" "state d4 = ''failed''"
      "nextRetryAt d4 = None" "failedAt d4 = Some t3"
    unfolding w4_def using d3(2) by (auto simp add: RETRY_CONFIG_maxRetries_def)
  have n1: "transactions_india w1 ! n = d1" using listFirst_Some[OF f1] by simp
  have n2: "transactions_india w2 ! n = d2" using listFirst_Some[OF d2(1)] by simp
  have n3: "transactions_india w3 ! n = d3" using listFirst_Some[OF d3(1)] by simp
  have n4: "transactions_india w4 ! n = d4" using listFirst_Some[OF d4(1)] by simp
  have formula: "\<forall>k. calculateRetryDelay k = min (60000 * 2 ^ k) 3600000"
    by (simp add: calculateRetryDelay_def RETRY_CONFIG_initialDelayMs_def
        RETRY_CONFIG_backoffMultiplier_def RETRY_CONFIG_maxDelayMs_def Let_def)
  have "state (transactions_india w1 ! n) = ''submitted''
          \<and> retryCount (transactions_india w1 ! n) = 0
          \<and> nextRetryAt (transactions_india w1 ! n) = Some (t0 + 60000)
          \<and> state (transactions_india w2 ! n) = ''submitted''
          \<and> retryCount (transactions_india w2 ! n) = 1
          \<and> nextRetryAt (transactions_india w2 ! n) = Some (t1 + 120000)
          \<and> state (transactions_india w3 ! n) = ''submitted''
          \<and> retryCount (transactions_india w3 ! n) = 2
          \<and> nextRetryAt (transactions_india w3 ! n) = Some (t2 + 240000)
          \<and> state (transactions_india w4 ! n) = ''failed''
          \<and> retryCount (transactions_india w4 ! n) = 3
          \<and> failedAt (transactions_india w4 ! n) = Some t3
          \<and> nextRetryAt (transactions_india w4 ! n) = None"
    unfolding n1 n2 n3 n4
    using d1 d2 d3 d4 by (simp add: calculateRetryDelay_values)
  with formula show ?thesis
    unfolding Let_def n_def w1_def w2_def w3_def w4_def
    by (simp add: calculateRetryDelay_values)
qed

theorem backoff_schedule_then_failed_witness:
  "validatePayoutAmount (ip_mode params_500) (ip_amountPaise params_500) = None
   \<and> map_of (razorpay_fund_accounts world_start) (ip_fundAccountRecordId params_500)
       = Some fund_account_1
   \<and> fa_active fund_account_1
   \<and> fa_userId fund_account_1 = ip_userId params_500
   \<and> transactions_india world_start = []
   \<and> (\<forall>calls request. isl (createPayout env_failing calls request))
   \<and> (let n = length (transactions_india world_start);
             w1 = fst (initiatePayoutIndia env_failing world_start 1000
                         ''payout_user_1_1000_ab12'' ''txn_1'' params_500);
             w2 = fst (retryTransaction env_failing w1 61000 ''txn_1'');
             w3 = fst (retryTransaction env_failing w2 181000 ''txn_1'');
             w4 = fst (retryTransaction env_failing w3 421000 ''txn_1'')
         in state (transactions_india w1 ! n) = ''submitted''
          \<and> retryCount (transactions_india w1 ! n) = 0
          \<and> nextRetryAt (transactions_india w1 ! n) = Some (1000 + 60000)
          \<and> state (transactions_india w2 ! n) = ''submitted''
          \<and> retryCount (transactions_india w2 ! n) = 1
          \<and> nextRetryAt (transactions_india w2 ! n) = Some (61000 + 120000)
          \<and> state (transactions_india w3 ! n) = ''submitted''
          \<and> retryCount (transactions_india w3 ! n) = 2
          \<and> nextRetryAt (transactions_india w3 ! n) = Some (181000 + 240000)
          \<and> state (transactions_india w4 ! n) = ''failed''
          \<and> retryCount (transactions_india w4 ! n) = 3
          \<and> failedAt (transactions_india w4 ! n) = Some 421000
          \<and> nextRetryAt (transactions_india w4 ! n) = None
          \<and> calculateRetryDelay 0 = 60000 \<and> calculateRetryDelay 1 = 120000
          \<and> calculateRetryDelay 2 = 240000
          \<and> (\<forall>k. calculateRetryDelay k = min (60000 * 2 ^ k) 3600000))"
proof -
  have h1: "validatePayoutAmount (ip_mode params_500) (ip_amountPaise params_500) = None"
    by code_simp
  have h2: "map_of (razorpay_fund_accounts world_start) (ip_fundAccountRecordId params_500)
       = Some fund_account_1"
    by code_simp
  have h3: "fa_active fund_account_1"
    by code_simp
  have h4: "fa_userId fund_account_1 = ip_userId params_500"
    by code_simp
  have h5: "\<forall>d \<in> set (transactions_india world_start). transactionId d \<noteq> ''txn_1''"
    by (simp add: world_start_def)
  have h6: "\<forall>calls request. isl (createPayout env_failing calls request)"
    by (simp add: env_failing_def env_with_def)
  note c = backoff_schedule_then_failed[OF h1 h2 h3 h4 h5 h6,
      of 1000 "''payout_user_1_1000_ab12''" 61000 181000 421000]
  have h5': "transactions_india world_start = []"
    by (simp add: world_start_def)
  from h1 h2 h3 h4 h5' h6 c show ?thesis by (intro conjI)
qed

section \<open>Claim C6: retries reuse the idempotency key\<close>

text \<open>
  Claim C6. For the transaction \<^verbatim>\<open>retryTransaction\<close> finds: when it is retryable (state
  submitted or failed, fewer than three retries) exactly one call of \<^verbatim>\<open>createPayout\<close>
  is made, its \<^verbatim>\<open>reference_id\<close> is the stored idempotency key (which the wrapper
  forwards unchanged unless it is empty), and the stored key is the same afterwards; when its state is neither submitted nor failed (queued, pending
  and processing among them) the result is the not-retryable error, and the store and the
  log of processor calls are unchanged.
\<close>

theorem retryTransaction_reuses_idempotency_key:
  assumes "listFirst (\<lambda>d. transactionId d = tid) (transactions_india w) = Some (i, transaction)"
  shows "(retryable transaction \<longrightarrow>
            payout_calls (fst (retryTransaction e w now tid))
              = payout_calls w @ [retry_request e transaction tid (retryCount transaction + 1)]
            \<and> reference_id (retry_request e transaction tid (retryCount transaction + 1))
              = idempotencyKey transaction
            \<and> (idempotencyKey transaction \<noteq> [] \<longrightarrow>
                 reference_id (createPayout_requestBody
                   (retry_request e transaction tid (retryCount transaction + 1)) minted)
                 = idempotencyKey transaction)
            \<and> idempotencyKey (transactions_india (fst (retryTransaction e w now tid)) ! i)
              = idempotencyKey transaction)
       \<and> (state transaction \<notin> set [''submitted'', ''failed''] \<longrightarrow>
            retryTransaction e w now tid =
              (w, retry_error (''Transaction in '' @ state transaction
                               @ '' state is not retryable'')))
       \<and> (\<not> retryable transaction \<longrightarrow>
            fst (retryTransaction e w now tid) = w
            \<and> \<not> rr_success (snd (retryTransaction e w now tid)))"
proof (intro conjI impI)
  assume r: "retryable transaction"
  from listFirst_Some[OF assms]
  have it: "i < length (transactions_india w)" "transactions_india w ! i = transaction" by simp_all
  show "payout_calls (fst (retryTransaction e w now tid))
              = payout_calls w @ [retry_request e transaction tid (retryCount transaction + 1)]"
    by (cases "createPayout e (payout_calls w) (retry_request e transaction tid (retryCount transaction + 1))")
       (simp_all add: retryTransaction_refused(2)[OF assms r] retryTransaction_accepted(2)[OF assms r])
  show "reference_id (retry_request e transaction tid (retryCount transaction + 1))
              = idempotencyKey transaction"
    by (simp add: retry_request_def)
  show "reference_id (createPayout_requestBody
                   (retry_request e transaction tid (retryCount transaction + 1)) minted)
                 = idempotencyKey transaction"
    if "idempotencyKey transaction \<noteq> []"
    using that by (simp add: retry_request_def createPayout_requestBody_def)
  show "idempotencyKey (transactions_india (fst (retryTransaction e w now tid)) ! i)
              = idempotencyKey transaction"
    using it
    by (cases "createPayout e (payout_calls w) (retry_request e transaction tid (retryCount transaction + 1))")
       (simp_all add: retryTransaction_refused(1)[OF assms r] retryTransaction_accepted(1)[OF assms r]
          retry_failure_update_fields retry_success_update_fields)
next
  assume "state transaction \<notin> set [''submitted'', ''failed'']"
  from retryTransaction_not_retryable[OF assms this]
  show "retryTransaction e w now tid =
              (w, retry_error (''Transaction in '' @ state transaction
                               @ '' state is not retryable''))" .
next
  assume n: "\<not> retryable transaction"
  show "fst (retryTransaction e w now tid) = w"
  proof (cases "state transaction \<in> set [''submitted'', ''failed'']")
    case True
    with n have "retryCount transaction \<ge> RETRY_CONFIG_maxRetries" by (auto simp add: retryable_def)
    from retryTransaction_max_reached[OF assms True this] show ?thesis by simp
  next
    case False
    from retryTransaction_not_retryable[OF assms False] show ?thesis by simp
  qed
  show "\<not> rr_success (snd (retryTransaction e w now tid))"
  proof (cases "state transaction \<in> set [''submitted'', ''failed'']")
    case True
    with n have "retryCount transaction \<ge> RETRY_CONFIG_maxRetries" by (auto simp add: retryable_def)
    from retryTransaction_max_reached[OF assms True this] show ?thesis by (simp add: retry_error_def)
  next
    case False
    from retryTransaction_not_retryable[OF assms False] show ?thesis by (simp add: retry_error_def)
  qed
qed

theorem retryTransaction_reuses_idempotency_key_witness:
  "listFirst (\<lambda>d. transactionId d = ''txn_1'') (transactions_india (submit env_failing))
     = Some (0, transactions_india (submit env_failing) ! 0)
   \<and> retryable (transactions_india (submit env_failing) ! 0)
   \<and> idempotencyKey (transactions_india (submit env_failing) ! 0) = ''payout_user_1_1000_ab12''
   \<and> map reference_id (payout_calls (fst (retryTransaction env_failing (submit env_failing) 61000 ''txn_1'')))
       = [''payout_user_1_1000_ab12'', ''payout_user_1_1000_ab12'']
   \<and> listFirst (\<lambda>d. transactionId d = ''txn_1'') (transactions_india world_pending)
       = Some (0, tx_pending)
   \<and> state tx_pending \<notin> set [''submitted'', ''failed'']
   \<and> \<not> retryable tx_pending
   \<and> fst (retryTransaction env_failing world_pending 61000 ''txn_1'') = world_pending
   \<and> \<not> rr_success (snd (retryTransaction env_failing world_pending 61000 ''txn_1''))"
proof -
  let ?w = "submit env_failing"
  let ?t = "transactions_india ?w ! 0"
  have f: "listFirst (\<lambda>d. transactionId d = ''txn_1'') (transactions_india ?w) = Some (0, ?t)"
    by code_simp
  have r: "retryable ?t"
    by code_simp
  have k: "idempotencyKey ?t = ''payout_user_1_1000_ab12''"
    by code_simp
  have before: "map reference_id (payout_calls ?w) = [''payout_user_1_1000_ab12'']"
    by code_simp
  from retryTransaction_reuses_idempotency_key[OF f, of env_failing 61000] r
  have "payout_calls (fst (retryTransaction env_failing ?w 61000 ''txn_1''))
          = payout_calls ?w @ [retry_request env_failing ?t ''txn_1'' (retryCount ?t + 1)]"
    and "reference_id (retry_request env_failing ?t ''txn_1'' (retryCount ?t + 1)) = idempotencyKey ?t"
    by blast+
  with k before
  have calls: "map reference_id (payout_calls (fst (retryTransaction env_failing ?w 61000 ''txn_1'')))
       = [''payout_user_1_1000_ab12'', ''payout_user_1_1000_ab12'']"
    by simp
  have f': "listFirst (\<lambda>d. transactionId d = ''txn_1'') (transactions_india world_pending)
       = Some (0, tx_pending)"
    by code_simp
  have s: "state tx_pending \<notin> set [''submitted'', ''failed'']"
    by code_simp
  have nr: "\<not> retryable tx_pending"
    by code_simp
  from retryTransaction_reuses_idempotency_key[OF f', of env_failing 61000] nr
  have u: "fst (retryTransaction env_failing world_pending 61000 ''txn_1'') = world_pending"
    "\<not> rr_success (snd (retryTransaction env_failing world_pending 61000 ''txn_1''))"
    by blast+
  from f r k calls f' s nr u show ?thesis by (intro conjI)
qed

section \<open>Claim C8: the stored state and the enum\<close>

text \<open>
  Claim C8 at the inputs where the code departs from it. \<^verbatim>\<open>initiatePayoutIndia\<close>
  stores the processor's status uncast: a payout answered with status rejected or
  processed leaves the stored state rejected or processed, neither of which is one of the
  eleven states. \<^verbatim>\<open>retryTransaction\<close> maps processed to completed but stores rejected
  as it is.
\<close>

theorem stored_state_outside_enum:
  "map state (transactions_india (submit (env_answering ''rejected''))) = [''rejected'']
   \<and> ''rejected'' \<notin> set TransactionState_values
   \<and> map state (transactions_india (submit (env_answering ''processed''))) = [''processed'']
   \<and> ''processed'' \<notin> set TransactionState_values
   \<and> map state (transactions_india (submit (env_first_call_fails ''rejected''))) = [''submitted'']
   \<and> map state (transactions_india
         (fst (retryTransaction (env_first_call_fails ''rejected'')
                (submit (env_first_call_fails ''rejected'')) 61000 ''txn_1''))) = [''rejected'']"
  by code_simp

section \<open>Claim C1: terminal states\<close>

lemma event_record_update_fields:
  "eventId (event_record_update result now r) = eventId r"
  "processed (event_record_update result now r) = pr_success result"
  by (simp_all add: event_record_update_def)

lemma fresh_processing_terminal:
  assumes "j < length (transactions_india w)"
    and "state (transactions_india w ! j) \<in> spec_terminal_states"
  shows "state (transactions_india (fst (fresh_processing e w now rawBody ev)) ! j)
           = state (transactions_india w ! j)"
proof -
  let ?w1 = "w\<lparr>webhook_events := webhook_events w @ [fresh_record e ev rawBody now]\<rparr>"
  have a: "j < length (transactions_india ?w1)"
    "state (transactions_india ?w1 ! j) \<in> spec_terminal_states"
    using assms by simp_all
  from processPayoutEvent_terminal[OF a, of now ev] show ?thesis
    by (simp add: fresh_processing_def Let_def)
qed

lemma POST_terminal:
  assumes "j < length (transactions_india w)"
    and "state (transactions_india w ! j) \<in> spec_terminal_states"
  shows "state (transactions_india (fst (POST e w now rawBody signature)) ! j)
           = state (transactions_india w ! j)"
proof -
  from POST_unchanged_unless_fresh[of e w now rawBody signature] show ?thesis
  proof (elim disjE exE conjE)
    assume "fst (POST e w now rawBody signature) = w"
    then show ?thesis by simp
  next
    fix sig ev
    assume s: "signature = Some sig" "sig \<noteq> []" "verifyWebhookSignature e rawBody sig = Some True"
      "JSON_parse e rawBody = Some ev"
      "filter (\<lambda>r. eventId r = generateEventId e ev) (webhook_events w) = []"
    from POST_fresh(1)[OF s(2-5), of now] s(1) fresh_processing_terminal[OF assms, of e now rawBody ev]
    show ?thesis by simp
  qed
qed

lemma terminal_not_retryable:
  assumes "state t \<in> spec_terminal_states"
    and "state t \<noteq> ''failed'' \<or> retryCount t \<ge> RETRY_CONFIG_maxRetries"
  shows "\<not> retryable t"
  using assms by (auto simp add: retryable_def spec_terminal_states_def)

text \<open>
  Claim C1, as stated: no webhook, retry or reconciliation call changes the stored state
  of a transaction in failed, reversed, cancelled or refund_completed. The retry scheduler
  treats failed as retryable. Here a submission timed out (state submitted, a retry due
  at 61000), the webhook \<^verbatim>\<open>payout.failed\<close> then moved the transaction to failed with no
  retry counted, and the next retry run (or a direct \<^verbatim>\<open>retryTransaction\<close>) resubmits it
  and stores the processor's answer: the state leaves failed for queued.
\<close>

theorem failed_transaction_retried_counterexample:
  "map state (transactions_india world_failed_by_webhook) = [''failed'']
   \<and> ''failed'' \<in> spec_terminal_states
   \<and> map state (transactions_india
         (fst (processRetries (env_first_call_fails ''queued'') world_failed_by_webhook 100000)))
       = [''queued'']
   \<and> map state (transactions_india
         (fst (retryTransaction (env_first_call_fails ''queued'') world_failed_by_webhook 100000
                 ''txn_1'')))
       = [''queued'']"
  by code_simp

text \<open>
  Claim C1, amended: webhook processing and reconciliation (one transaction or the
  batch) never change the stored state of a transaction in failed, reversed, cancelled or
  refund_completed; the retry calls leave such a transaction entirely unchanged when its
  state is reversed, cancelled or refund_completed, or failed with the retry count at the
  maximum of three. (A failed transaction with fewer than three retries is retryable.)
\<close>

theorem terminal_state_kept:
  assumes "j < length (transactions_india w)"
    and "state (transactions_india w ! j) \<in> spec_terminal_states"
  shows "state (transactions_india (fst (POST e w now rawBody signature)) ! j)
           = state (transactions_india w ! j)
       \<and> state (transactions_india (fst (reconcileTransaction e w now tid)) ! j)
           = state (transactions_india w ! j)
       \<and> state (transactions_india (fst (reconcileAllPending e w now)) ! j)
           = state (transactions_india w ! j)
       \<and> (state (transactions_india w ! j) \<noteq> ''failed''
            \<or> retryCount (transactions_india w ! j) \<ge> RETRY_CONFIG_maxRetries \<longrightarrow>
           transactions_india (fst (retryTransaction e w now tid)) ! j = transactions_india w ! j
           \<and> transactions_india (fst (processRetries e w now)) ! j = transactions_india w ! j)"
proof (intro conjI impI)
  show "state (transactions_india (fst (POST e w now rawBody signature)) ! j)
           = state (transactions_india w ! j)"
    by (rule POST_terminal[OF assms])
  show "state (transactions_india (fst (reconcileTransaction e w now tid)) ! j)
           = state (transactions_india w ! j)"
    by (simp add: reconcileTransaction_terminal[OF assms])
  show "state (transactions_india (fst (reconcileAllPending e w now)) ! j)
           = state (transactions_india w ! j)"
    by (simp add: reconcileAllPending_def reconcile_loop_terminal[OF assms])
next
  assume "state (transactions_india w ! j) \<noteq> ''failed''
            \<or> retryCount (transactions_india w ! j) \<ge> RETRY_CONFIG_maxRetries"
  from terminal_not_retryable[OF assms(2) this]
  have n: "\<not> retryable (transactions_india w ! j)" .
  show "transactions_india (fst (retryTransaction e w now tid)) ! j = transactions_india w ! j"
    by (rule retryTransaction_unchanged(1)[OF assms(1) n])
  show "transactions_india (fst (processRetries e w now)) ! j = transactions_india w ! j"
    by (simp add: processRetries_def processRetries_loop_unchanged[OF assms(1) n])
qed

theorem terminal_state_kept_witness:
  "map state (transactions_india world_failed_by_webhook) = [''failed'']
   \<and> map state (transactions_india
        (fst (POST env_failing world_failed_by_webhook 40000 ''body_processed'' (Some ''valid''))))
       = [''failed'']
   \<and> map state (transactions_india
        (fst (reconcileTransaction env_failing world_failed_by_webhook 40000 ''txn_1'')))
       = [''failed'']
   \<and> map state (transactions_india (fst (reconcileAllPending env_failing world_failed_by_webhook 40000)))
       = [''failed'']
   \<and> map state (transactions_india world_retries_exhausted) = [''failed'']
   \<and> map retryCount (transactions_india world_retries_exhausted) = [3]
   \<and> transactions_india (fst (retryTransaction (env_answering ''queued'') world_retries_exhausted
         500000 ''txn_1'')) = transactions_india world_retries_exhausted
   \<and> transactions_india (fst (processRetries (env_answering ''queued'') world_retries_exhausted
         500000)) = transactions_india world_retries_exhausted"
proof -
  let ?a = "world_failed_by_webhook"
  let ?b = "world_retries_exhausted"
  have a0: "transactions_india ?a = [transactions_india ?a ! 0]"
    by code_simp
  have a1: "0 < length (transactions_india ?a)"
    by code_simp
  have a2: "state (transactions_india ?a ! 0) = ''failed''"
    by code_simp
  have t: "''failed'' \<in> spec_terminal_states"
    by (simp add: spec_terminal_states_def)
  from a2 t have a3: "state (transactions_india ?a ! 0) \<in> spec_terminal_states" by simp
  note A = terminal_state_kept[OF a1 a3, of env_failing 40000 "''body_processed''" "Some ''valid''" "''txn_1''"]
  have la: "length (transactions_india
        (fst (POST env_failing ?a 40000 ''body_processed'' (Some ''valid'')))) = 1"
    "length (transactions_india (fst (reconcileTransaction env_failing ?a 40000 ''txn_1''))) = 1"
    "length (transactions_india (fst (reconcileAllPending env_failing ?a 40000))) = 1"
    by code_simp+
  have b0: "transactions_india ?b = [transactions_india ?b ! 0]"
    by code_simp
  have b1: "0 < length (transactions_india ?b)"
    by code_simp
  have b2: "state (transactions_india ?b ! 0) = ''failed''"
    by code_simp
  from b2 t have b3: "state (transactions_india ?b ! 0) \<in> spec_terminal_states" by simp
  have b4: "retryCount (transactions_india ?b ! 0) = 3"
    by code_simp
  then have b5: "retryCount (transactions_india ?b ! 0) \<ge> RETRY_CONFIG_maxRetries"
    by (simp add: RETRY_CONFIG_maxRetries_def)
  note B = terminal_state_kept[OF b1 b3, of "env_answering ''queued''" 500000 "''body_processed''"
      "Some ''valid''" "''txn_1''"]
  have lb: "length (transactions_india (fst (retryTransaction (env_answering ''queued'') ?b
         500000 ''txn_1''))) = 1"
    "length (transactions_india (fst (processRetries (env_answering ''queued'') ?b 500000))) = 1"
    by code_simp+
  have one: "\<And>xs ys :: IndianTransaction list. length xs = 1 \<Longrightarrow> length ys = 1 \<Longrightarrow> xs ! 0 = ys ! 0 \<Longrightarrow> xs = ys"
    by (simp add: list_eq_iff_nth_eq)
  have ones: "\<And>xs :: IndianTransaction list. length xs = 1 \<Longrightarrow> map state xs = [state (xs ! 0)]"
    by (simp add: list_eq_iff_nth_eq)
  have lens: "length (transactions_india ?a) = 1" "length (transactions_india ?b) = 1"
    by code_simp+
  from A a2 la have ra: "map state (transactions_india
        (fst (POST env_failing ?a 40000 ''body_processed'' (Some ''valid'')))) = [''failed'']"
    "map state (transactions_india (fst (reconcileTransaction env_failing ?a 40000 ''txn_1''))) = [''failed'']"
    "map state (transactions_india (fst (reconcileAllPending env_failing ?a 40000))) = [''failed'']"
    by (simp_all add: ones)
  from B b5 have "transactions_india (fst (retryTransaction (env_answering ''queued'') ?b
         500000 ''txn_1'')) ! 0 = transactions_india ?b ! 0"
    "transactions_india (fst (processRetries (env_answering ''queued'') ?b 500000)) ! 0
       = transactions_india ?b ! 0"
    by blast+
  with lb lens have rb: "transactions_india (fst (retryTransaction (env_answering ''queued'') ?b
         500000 ''txn_1'')) = transactions_india ?b"
    "transactions_india (fst (processRetries (env_answering ''queued'') ?b 500000))
       = transactions_india ?b"
    by (simp_all add: one)
  have sa: "map state (transactions_india ?a) = [''failed'']"
    using a2 lens by (simp add: ones)
  have sb: "map state (transactions_india ?b) = [''failed'']"
    using b2 lens by (simp add: ones)
  have cb: "map retryCount (transactions_india ?b) = [3]"
    by code_simp
  from sa ra sb cb rb show ?thesis by (intro conjI)
qed

section \<open>Claim C7: duplicate webhook delivery\<close>

lemma sum_list_map_update:
  fixes f :: "'a \<Rightarrow> nat"
  assumes "i < length xs"
  shows "sum_list (map f (xs[i := y])) + f (xs ! i) = sum_list (map f xs) + f y"
  using assms
proof (induction xs arbitrary: i)
  case Nil
  then show ?case by simp
next
  case (Cons x xs)
  then show ?case by (cases i) auto
qed

lemma transitionState_count:
  "(\<exists>m. transitionState w now p = (w, Inl m)) \<or>
   (\<not> isl (snd (transitionState w now p))
    \<and> length (transactions_india (fst (transitionState w now p))) = length (transactions_india w)
    \<and> transition_count (fst (transitionState w now p)) = Suc (transition_count w))"
proof -
  from transitionState_result[of w now p] show ?thesis
  proof (elim disjE exE conjE)
    fix m assume "transitionState w now p = (w, Inl m)"
    then show ?thesis by blast
  next
    fix i t
    assume f: "listFirst (\<lambda>d. transactionId d = tp_transactionId p) (transactions_india w) = Some (i, t)"
      and r: "transitionState w now p =
            (w\<lparr>transactions_india :=
                 (transactions_india w)[i := transitionState_updateData t p now t]\<rparr>,
             Inr (transitionState_updateData t p now t))"
    from listFirst_Some[OF f] have it: "i < length (transactions_india w)" "transactions_india w ! i = t"
      by simp_all
    from sum_list_map_update[OF it(1), of "\<lambda>d. length (stateHistory d)" "transitionState_updateData t p now t"] it(2)
    have "transition_count (fst (transitionState w now p)) = Suc (transition_count w)"
      unfolding r by (simp add: transition_count_def transitionState_updateData_state)
    with r show ?thesis by simp
  qed
qed

lemma payout_fields_update_history:
  "stateHistory (payout_fields_update p d) = stateHistory d"
  by (simp add: payout_fields_update_def Let_def)

lemma transition_count_fields_update:
  assumes "i < length (transactions_india w)"
  shows "transition_count (w\<lparr>transactions_india :=
            (transactions_india w)[i := payout_fields_update p (transactions_india w ! i)]\<rparr>)
         = transition_count w"
  using sum_list_map_update[OF assms, of "\<lambda>d. length (stateHistory d)"
      "payout_fields_update p (transactions_india w ! i)"]
  by (simp add: transition_count_def payout_fields_update_history)

lemma processPayoutEvent_count:
  "transactions_india (fst (processPayoutEvent w now ev)) = transactions_india w
   \<or> transition_count (fst (processPayoutEvent w now ev)) = Suc (transition_count w)"
proof (cases "payload_payout ev")
  case None
  then show ?thesis by (simp add: processPayoutEvent_def)
next
  case (Some payout)
  define found where "found =
     (if listFirst (\<lambda>d. razorpayPayoutId d = Some (payout_id payout)) (transactions_india w) = None
         \<and> truthy (payout_reference_id payout)
      then listFirst (\<lambda>d. Some (idempotencyKey d) = payout_reference_id payout) (transactions_india w)
      else listFirst (\<lambda>d. razorpayPayoutId d = Some (payout_id payout)) (transactions_india w))"
  show ?thesis
  proof (cases found)
    case None
    with Some show ?thesis
      unfolding found_def by (simp add: processPayoutEvent_def Let_def)
  next
    case (Some a)
    obtain i t where a: "a = (i, t)" by (cases a)
    have it: "i < length (transactions_india w)"
      using Some a listFirst_Some unfolding found_def by (metis (no_types, lifting))
    define p where "p =
       \<lparr>tp_transactionId = transactionId t,
        tp_newState = mapPayoutStatusToState (payout_status payout),
        tp_reason = Some (''Webhook: '' @ event ev),
        tp_source = SourceWebhook,
        tp_metadata = Some (webhook_metadata payout)\<rparr>"
    from transitionState_count[of w now p]
    show ?thesis
    proof (elim disjE exE conjE)
      fix m assume "transitionState w now p = (w, Inl m)"
      with \<open>payload_payout ev = Some payout\<close> Some a show ?thesis
        unfolding found_def p_def
        by (simp add: processPayoutEvent_def Let_def split: sum.split bool.split)
    next
      assume ok: "\<not> isl (snd (transitionState w now p))"
        and len: "length (transactions_india (fst (transitionState w now p))) = length (transactions_india w)"
        and cnt: "transition_count (fst (transitionState w now p)) = Suc (transition_count w)"
      let ?w' = "fst (transitionState w now p)"
      from it len have i': "i < length (transactions_india ?w')" by simp
      from ok obtain x where x: "snd (transitionState w now p) = Inr x"
        by (cases "snd (transitionState w now p)") auto
      have k: "transition_count (?w'\<lparr>transactions_india :=
            (transactions_india ?w')[i := payout_fields_update payout (transactions_india ?w' ! i)]\<rparr>)
          = Suc (transition_count w)"
        using transition_count_fields_update[OF i'] cnt by simp
      from \<open>payload_payout ev = Some payout\<close> Some a x i' k cnt show ?thesis
        unfolding found_def p_def
        by (simp add: processPayoutEvent_def Let_def case_prod_unfold updateDocument_def
              split: sum.split bool.split)
    qed
  qed
qed

lemma transition_count_cong:
  "transactions_india a = transactions_india b \<Longrightarrow> transition_count a = transition_count b"
  by (simp add: transition_count_def)

lemma POST_count:
  "transactions_india (fst (POST e w now rawBody signature)) = transactions_india w
   \<or> transition_count (fst (POST e w now rawBody signature)) = Suc (transition_count w)"
proof -
  from POST_unchanged_unless_fresh[of e w now rawBody signature] show ?thesis
  proof (elim disjE exE conjE)
    assume "fst (POST e w now rawBody signature) = w"
    then show ?thesis by simp
  next
    fix sig ev
    assume s: "signature = Some sig" "sig \<noteq> []" "verifyWebhookSignature e rawBody sig = Some True"
      "JSON_parse e rawBody = Some ev"
      "filter (\<lambda>r. eventId r = generateEventId e ev) (webhook_events w) = []"
    let ?w1 = "w\<lparr>webhook_events := webhook_events w @ [fresh_record e ev rawBody now]\<rparr>"
    have t: "transactions_india (fst (POST e w now rawBody signature))
               = transactions_india (fst (fresh_processing e w now rawBody ev))"
      using POST_fresh(1)[OF s(2-5), of now] s(1) by simp
    have c1: "transition_count ?w1 = transition_count w"
      by (simp add: transition_count_def)
    have "transactions_india (fst (fresh_processing e w now rawBody ev)) = transactions_india w
          \<or> transition_count (fst (fresh_processing e w now rawBody ev)) = Suc (transition_count w)"
    proof (cases "isPayoutEvent (event ev)")
      case True
      from processPayoutEvent_count[of ?w1 now ev] c1 True show ?thesis
        by (simp add: fresh_processing_def Let_def)
    next
      case False
      then show ?thesis by (simp add: fresh_processing_def Let_def)
    qed
    with t transition_count_cong[OF t] show ?thesis by simp
  qed
qed

lemma processPayoutEvent_no_payout:
  "payload_payout ev = None \<Longrightarrow> fst (processPayoutEvent w now ev) = w"
  by (simp add: processPayoutEvent_def)

lemma processPayoutEvent_not_found:
  "payload_payout ev = Some payout \<Longrightarrow> payout_transaction (transactions_india w) payout = None \<Longrightarrow>
   fst (processPayoutEvent w now ev) = w"
  by (simp add: processPayoutEvent_def payout_transaction_def Let_def)

lemma processPayoutEvent_same_state:
  "payload_payout ev = Some payout \<Longrightarrow>
   payout_transaction (transactions_india w) payout = Some (i, t) \<Longrightarrow>
   mapPayoutStatusToState (payout_status payout) = state t \<Longrightarrow>
   fst (processPayoutEvent w now ev) = w"
  by (simp add: processPayoutEvent_def payout_transaction_def Let_def)

lemma processPayoutEvent_not_valid:
  assumes "payload_payout ev = Some payout"
    and "payout_transaction (transactions_india w) payout = Some (i, t)"
    and "isValidTransition (state t) (mapPayoutStatusToState (payout_status payout)) \<noteq> Inr True"
  shows "fst (processPayoutEvent w now ev) = w"
proof (cases "isValidTransition (state t) (mapPayoutStatusToState (payout_status payout))")
  case (Inl m)
  with assms(1,2) show ?thesis
    by (simp add: processPayoutEvent_def payout_transaction_def Let_def)
next
  case (Inr b)
  with assms(3) have "isValidTransition (state t) (mapPayoutStatusToState (payout_status payout)) = Inr False"
    by simp
  with assms(1,2) show ?thesis
    by (simp add: processPayoutEvent_def payout_transaction_def Let_def)
qed

lemma processPayoutEvent_applied:
  assumes "payload_payout ev = Some payout"
    and "payout_transaction (transactions_india w) payout = Some (i, t)"
    and "mapPayoutStatusToState (payout_status payout) \<noteq> state t"
    and "isValidTransition (state t) (mapPayoutStatusToState (payout_status payout)) = Inr True"
    and "listFirst (\<lambda>d. transactionId d = transactionId t) (transactions_india w) = Some (i, t)"
  shows "transactions_india (fst (processPayoutEvent w now ev))
           = (transactions_india w)
               [i := payout_fields_update payout
                       (transitionState_updateData t (webhook_transition_params ev payout t) now t)]"
    and "snd (processPayoutEvent w now ev)
           = \<lparr>pr_success = True, pr_transactionId = Some (transactionId t), pr_error = None\<rparr>"
proof -
  let ?p = "webhook_transition_params ev payout t"
  have f: "listFirst (\<lambda>d. transactionId d = tp_transactionId ?p) (transactions_india w) = Some (i, t)"
    using assms(5) by (simp add: webhook_transition_params_def)
  have v: "isValidTransition (state t) (tp_newState ?p) = Inr True"
    using assms(4) by (simp add: webhook_transition_params_def)
  note T = transitionState_valid[OF f v, of now]
  from listFirst_Some[OF assms(5)] have it: "i < length (transactions_india w)" by simp
  have ne: "(mapPayoutStatusToState (payout_status payout) = state t) = False"
    using assms(3) by simp
  show "transactions_india (fst (processPayoutEvent w now ev))
           = (transactions_india w)
               [i := payout_fields_update payout
                       (transitionState_updateData t (webhook_transition_params ev payout t) now t)]"
    using assms(1,2,4) it T ne
    by (simp add: processPayoutEvent_def payout_transaction_def Let_def updateDocument_def
          webhook_transition_params_def)
  show "snd (processPayoutEvent w now ev)
           = \<lparr>pr_success = True, pr_transactionId = Some (transactionId t), pr_error = None\<rparr>"
    using assms(1,2,4) it T ne
    by (simp add: processPayoutEvent_def payout_transaction_def Let_def updateDocument_def
          webhook_transition_params_def)
qed

lemma fresh_processing_transactions:
  "transactions_india (fst (fresh_processing e w now rawBody ev))
     = (if isPayoutEvent (event ev)
        then transactions_india (fst (processPayoutEvent
               (w\<lparr>webhook_events := webhook_events w @ [fresh_record e ev rawBody now]\<rparr>) now ev))
        else transactions_india w)"
  by (simp add: fresh_processing_def Let_def)

text \<open>
  Claim C7, as stated: delivering the identical payload and signature twice results in
  exactly one transaction mutation. The count depends on the event. Here the payload is
  verified and parsed, its payout is found, but its status maps to completed, which is
  not a valid transition from the stored state failed: after both deliveries every
  transaction is as it was before the first, and no transition has been recorded.
\<close>

theorem duplicate_delivery_counterexample:
  "verifyWebhookSignature env_failing ''body_processed'' ''valid'' = Some True
   \<and> JSON_parse env_failing ''body_processed''
       = Some (event_of ''payout.processed'' ''processed'' 40)
   \<and> transactions_india
         (fst (POST env_failing
                (fst (POST env_failing world_failed_by_webhook 40000 ''body_processed''
                        (Some ''valid'')))
                90000 ''body_processed'' (Some ''valid'')))
       = transactions_india world_failed_by_webhook
   \<and> transition_count
         (fst (POST env_failing
                (fst (POST env_failing world_failed_by_webhook 40000 ''body_processed''
                        (Some ''valid'')))
                90000 ''body_processed'' (Some ''valid'')))
       = transition_count world_failed_by_webhook"
  by code_simp

text \<open>
  Claim C7, amended. A payload whose signature verifies and which parses is delivered
  twice. Both deliveries derive the same event id (it is a function of the parsed event);
  after the first delivery the store holds an event record with that id, so the second
  delivery returns the success-shaped response \<^verbatim>\<open>Event already processed\<close> and leaves
  the whole store, every transaction included, as the first delivery left it. The first
  delivery records one transition or none, never more. It records exactly one, on the
  transaction of the payout, when no record with the event id existed, the event is a
  payout event with a payout entity, the payout's transaction is found and is the first
  with its transaction id, and the mapped state differs from the stored state and is a
  valid transition from it; the transaction then holds the transition's update followed
  by the payout's fields. It leaves every transaction unchanged when a record with the
  event id existed, the event is not a payout event or has no payout entity, no
  transaction is found, or the mapped state equals the stored state or is not a valid
  transition from it.
\<close>

theorem duplicate_delivery_applies_transition_once:
  assumes "sig \<noteq> []" and "verifyWebhookSignature e rawBody sig = Some True"
    and "JSON_parse e rawBody = Some ev"
  shows "POST e (fst (POST e w t1 rawBody (Some sig))) t2 rawBody (Some sig)
           = (fst (POST e w t1 rawBody (Some sig)),
              response_already_processed (generateEventId e ev))
       \<and> resp_status (response_already_processed (generateEventId e ev)) = 200
       \<and> resp_success (response_already_processed (generateEventId e ev)) = Some True
       \<and> (transactions_india (fst (POST e w t1 rawBody (Some sig))) = transactions_india w
            \<or> transition_count (fst (POST e w t1 rawBody (Some sig))) = Suc (transition_count w))
       \<and> (\<forall>payout i t.
             filter (\<lambda>r. eventId r = generateEventId e ev) (webhook_events w) = []
             \<and> isPayoutEvent (event ev)
             \<and> payload_payout ev = Some payout
             \<and> payout_transaction (transactions_india w) payout = Some (i, t)
             \<and> mapPayoutStatusToState (payout_status payout) \<noteq> state t
             \<and> isValidTransition (state t) (mapPayoutStatusToState (payout_status payout)) = Inr True
             \<and> listFirst (\<lambda>d. transactionId d = transactionId t) (transactions_india w) = Some (i, t)
             \<longrightarrow>
             transactions_india (fst (POST e w t1 rawBody (Some sig)))
               = (transactions_india w)
                   [i := payout_fields_update payout
                           (transitionState_updateData t (webhook_transition_params ev payout t) t1 t)]
             \<and> state (transactions_india (fst (POST e w t1 rawBody (Some sig))) ! i)
               = mapPayoutStatusToState (payout_status payout)
             \<and> transition_count (fst (POST e w t1 rawBody (Some sig))) = Suc (transition_count w))
       \<and> (filter (\<lambda>r. eventId r = generateEventId e ev) (webhook_events w) \<noteq> []
            \<or> \<not> isPayoutEvent (event ev)
            \<or> payload_payout ev = None
            \<or> (\<exists>payout. payload_payout ev = Some payout
                  \<and> (payout_transaction (transactions_india w) payout = None
                       \<or> (\<exists>i t. payout_transaction (transactions_india w) payout = Some (i, t)
                             \<and> (mapPayoutStatusToState (payout_status payout) = state t
                                  \<or> isValidTransition (state t)
                                        (mapPayoutStatusToState (payout_status payout)) \<noteq> Inr True))))
            \<longrightarrow>
            transactions_india (fst (POST e w t1 rawBody (Some sig))) = transactions_india w)"
proof (intro conjI)
  let ?w1 = "fst (POST e w t1 rawBody (Some sig))"
  let ?id = "generateEventId e ev"
  let ?wr = "w\<lparr>webhook_events := webhook_events w @ [fresh_record e ev rawBody t1]\<rparr>"
  have recorded: "filter (\<lambda>r. eventId r = ?id) (webhook_events ?w1) \<noteq> []"
  proof (cases "filter (\<lambda>r. eventId r = ?id) (webhook_events w) = []")
    case True
    from POST_fresh(2)[OF assms True, of t1] show ?thesis
      by (simp add: event_record_update_fields fresh_record_def)
  next
    case False
    from POST_duplicate[OF assms False, of t1] False show ?thesis by simp
  qed
  from POST_duplicate[OF assms recorded, of t2]
  show "POST e ?w1 t2 rawBody (Some sig) = (?w1, response_already_processed ?id)" .
  show "resp_status (response_already_processed ?id) = 200"
    by (simp add: response_already_processed_def)
  show "resp_success (response_already_processed ?id) = Some True"
    by (simp add: response_already_processed_def)
  show count: "transactions_india ?w1 = transactions_india w
            \<or> transition_count ?w1 = Suc (transition_count w)"
    by (rule POST_count)
  show "\<forall>payout i t.
             filter (\<lambda>r. eventId r = ?id) (webhook_events w) = []
             \<and> isPayoutEvent (event ev)
             \<and> payload_payout ev = Some payout
             \<and> payout_transaction (transactions_india w) payout = Some (i, t)
             \<and> mapPayoutStatusToState (payout_status payout) \<noteq> state t
             \<and> isValidTransition (state t) (mapPayoutStatusToState (payout_status payout)) = Inr True
             \<and> listFirst (\<lambda>d. transactionId d = transactionId t) (transactions_india w) = Some (i, t)
             \<longrightarrow>
             transactions_india ?w1
               = (transactions_india w)
                   [i := payout_fields_update payout
                           (transitionState_updateData t (webhook_transition_params ev payout t) t1 t)]
             \<and> state (transactions_india ?w1 ! i) = mapPayoutStatusToState (payout_status payout)
             \<and> transition_count ?w1 = Suc (transition_count w)"
  proof (intro allI impI, elim conjE)
    fix payout i t
    assume fresh: "filter (\<lambda>r. eventId r = ?id) (webhook_events w) = []"
      and pe: "isPayoutEvent (event ev)"
      and pp: "payload_payout ev = Some payout"
      and found: "payout_transaction (transactions_india w) payout = Some (i, t)"
      and differs: "mapPayoutStatusToState (payout_status payout) \<noteq> state t"
      and valid: "isValidTransition (state t) (mapPayoutStatusToState (payout_status payout)) = Inr True"
      and first: "listFirst (\<lambda>d. transactionId d = transactionId t) (transactions_india w) = Some (i, t)"
    from listFirst_Some[OF first]
    have it: "i < length (transactions_india w)" "transactions_india w ! i = t" by simp_all
    have found': "payout_transaction (transactions_india ?wr) payout = Some (i, t)"
      using found by simp
    have first': "listFirst (\<lambda>d. transactionId d = transactionId t) (transactions_india ?wr) = Some (i, t)"
      using first by simp
    from processPayoutEvent_applied(1)[OF pp found' differs valid first', of t1]
    have "transactions_india (fst (processPayoutEvent ?wr t1 ev))
           = (transactions_india w)
               [i := payout_fields_update payout
                       (transitionState_updateData t (webhook_transition_params ev payout t) t1 t)]"
      by simp
    with POST_fresh(1)[OF assms fresh, of t1] pe
    have docs: "transactions_india ?w1
               = (transactions_india w)
                   [i := payout_fields_update payout
                           (transitionState_updateData t (webhook_transition_params ev payout t) t1 t)]"
      by (simp add: fresh_processing_transactions)
    have st: "state (transactions_india ?w1 ! i) = mapPayoutStatusToState (payout_status payout)"
      unfolding docs using it(1)
      by (simp add: payout_fields_update_state transitionState_updateData_state
            webhook_transition_params_def)
    from st differs it(2) have "transactions_india ?w1 \<noteq> transactions_india w" by auto
    with count have "transition_count ?w1 = Suc (transition_count w)" by simp
    with docs st
    show "transactions_india ?w1
               = (transactions_india w)
                   [i := payout_fields_update payout
                           (transitionState_updateData t (webhook_transition_params ev payout t) t1 t)]
             \<and> state (transactions_india ?w1 ! i) = mapPayoutStatusToState (payout_status payout)
             \<and> transition_count ?w1 = Suc (transition_count w)"
      by simp
  qed
  show "filter (\<lambda>r. eventId r = ?id) (webhook_events w) \<noteq> []
            \<or> \<not> isPayoutEvent (event ev)
            \<or> payload_payout ev = None
            \<or> (\<exists>payout. payload_payout ev = Some payout
                  \<and> (payout_transaction (transactions_india w) payout = None
                       \<or> (\<exists>i t. payout_transaction (transactions_india w) payout = Some (i, t)
                             \<and> (mapPayoutStatusToState (payout_status payout) = state t
                                  \<or> isValidTransition (state t)
                                        (mapPayoutStatusToState (payout_status payout)) \<noteq> Inr True))))
            \<longrightarrow>
            transactions_india ?w1 = transactions_india w"
  proof (cases "filter (\<lambda>r. eventId r = ?id) (webhook_events w) = []")
    case False
    from POST_duplicate[OF assms False, of t1] show ?thesis by simp
  next
    case True
    note F = POST_fresh(1)[OF assms True, of t1]
    show ?thesis
    proof (intro impI, elim disjE exE conjE)
      assume "filter (\<lambda>r. eventId r = ?id) (webhook_events w) \<noteq> []"
      with True show "transactions_india ?w1 = transactions_india w" by simp
    next
      assume "\<not> isPayoutEvent (event ev)"
      with F show "transactions_india ?w1 = transactions_india w"
        by (simp add: fresh_processing_transactions)
    next
      assume "payload_payout ev = None"
      from processPayoutEvent_no_payout[OF this, of ?wr t1] F
      show "transactions_india ?w1 = transactions_india w"
        by (simp add: fresh_processing_transactions)
    next
      fix payout
      assume pp: "payload_payout ev = Some payout"
        and "payout_transaction (transactions_india w) payout = None"
      then have "payout_transaction (transactions_india ?wr) payout = None" by simp
      from processPayoutEvent_not_found[OF pp this, of t1] F
      show "transactions_india ?w1 = transactions_india w"
        by (simp add: fresh_processing_transactions)
    next
      fix payout i t
      assume pp: "payload_payout ev = Some payout"
        and "payout_transaction (transactions_india w) payout = Some (i, t)"
        and same: "mapPayoutStatusToState (payout_status payout) = state t"
      then have "payout_transaction (transactions_india ?wr) payout = Some (i, t)" by simp
      from processPayoutEvent_same_state[OF pp this same, of t1] F
      show "transactions_india ?w1 = transactions_india w"
        by (simp add: fresh_processing_transactions)
    next
      fix payout i t
      assume pp: "payload_payout ev = Some payout"
        and "payout_transaction (transactions_india w) payout = Some (i, t)"
        and nv: "isValidTransition (state t) (mapPayoutStatusToState (payout_status payout)) \<noteq> Inr True"
      then have "payout_transaction (transactions_india ?wr) payout = Some (i, t)" by simp
      from processPayoutEvent_not_valid[OF pp this nv, of t1] F
      show "transactions_india ?w1 = transactions_india w"
        by (simp add: fresh_processing_transactions)
    qed
  qed
qed

theorem duplicate_delivery_applies_transition_once_witness:
  "verifyWebhookSignature (env_answering ''queued'') ''body_processing'' ''valid'' = Some True
   \<and> JSON_parse (env_answering ''queued'') ''body_processing''
       = Some (event_of ''payout.processing'' ''processing'' 50)
   \<and> webhook_events world_queued = []
   \<and> payout_transaction (transactions_india world_queued) (payout_with_status ''processing'')
       = Some (0, transactions_india world_queued ! 0)
   \<and> state (transactions_india world_queued ! 0) = ''queued''
   \<and> isValidTransition ''queued'' ''processing'' = Inr True
   \<and> transition_count world_queued = 2
   \<and> state (transactions_india
         (fst (POST (env_answering ''queued'') world_queued 2000 ''body_processing'' (Some ''valid'')))
         ! 0) = ''processing''
   \<and> transition_count
         (fst (POST (env_answering ''queued'') world_queued 2000 ''body_processing'' (Some ''valid'')))
       = 3
   \<and> POST (env_answering ''queued'')
         (fst (POST (env_answering ''queued'') world_queued 2000 ''body_processing'' (Some ''valid'')))
         3000 ''body_processing'' (Some ''valid'')
       = (fst (POST (env_answering ''queued'') world_queued 2000 ''body_processing'' (Some ''valid'')),
          response_already_processed
            (generateEventId (env_answering ''queued'')
               (event_of ''payout.processing'' ''processing'' 50)))
   \<and> payout_transaction (transactions_india world_failed_by_webhook)
         (payout_with_status ''processed'')
       = Some (0, transactions_india world_failed_by_webhook ! 0)
   \<and> state (transactions_india world_failed_by_webhook ! 0) = ''failed''
   \<and> isValidTransition ''failed'' ''completed'' = Inr False
   \<and> transactions_india
         (fst (POST env_failing world_failed_by_webhook 40000 ''body_processed'' (Some ''valid'')))
       = transactions_india world_failed_by_webhook"
proof -
  let ?e = "env_answering ''queued''"
  let ?ev = "event_of ''payout.processing'' ''processing'' 50"
  let ?p = "payout_with_status ''processing''"
  let ?t = "transactions_india world_queued ! 0"
  have s: "''valid'' \<noteq> []" by simp
  have v: "verifyWebhookSignature ?e ''body_processing'' ''valid'' = Some True"
    by code_simp
  have p: "JSON_parse ?e ''body_processing'' = Some ?ev"
    by code_simp
  have none: "webhook_events world_queued = []"
    by code_simp
  then have fresh: "filter (\<lambda>r. eventId r = generateEventId ?e ?ev) (webhook_events world_queued) = []"
    by simp
  have pe: "isPayoutEvent (event ?ev)"
    by code_simp
  have pp: "payload_payout ?ev = Some ?p"
    by code_simp
  have found: "payout_transaction (transactions_india world_queued) ?p = Some (0, ?t)"
    by code_simp
  have st: "state ?t = ''queued''"
    by code_simp
  have m: "mapPayoutStatusToState (payout_status ?p) = ''processing''"
    by code_simp
  have differs: "mapPayoutStatusToState (payout_status ?p) \<noteq> state ?t"
    by code_simp
  have valid: "isValidTransition (state ?t) (mapPayoutStatusToState (payout_status ?p)) = Inr True"
    by code_simp
  have valid': "isValidTransition ''queued'' ''processing'' = Inr True"
    by code_simp
  have first: "listFirst (\<lambda>d. transactionId d = transactionId ?t) (transactions_india world_queued)
                 = Some (0, ?t)"
    by code_simp
  have c: "transition_count world_queued = 2"
    by code_simp
  note T = duplicate_delivery_applies_transition_once[OF s v p, of world_queued 2000 3000]
  from T have again: "POST ?e (fst (POST ?e world_queued 2000 ''body_processing'' (Some ''valid'')))
         3000 ''body_processing'' (Some ''valid'')
       = (fst (POST ?e world_queued 2000 ''body_processing'' (Some ''valid'')),
          response_already_processed (generateEventId ?e ?ev))"
    by (rule conjunct1)
  from T have applied: "\<forall>payout i t.
             filter (\<lambda>r. eventId r = generateEventId ?e ?ev) (webhook_events world_queued) = []
             \<and> isPayoutEvent (event ?ev)
             \<and> payload_payout ?ev = Some payout
             \<and> payout_transaction (transactions_india world_queued) payout = Some (i, t)
             \<and> mapPayoutStatusToState (payout_status payout) \<noteq> state t
             \<and> isValidTransition (state t) (mapPayoutStatusToState (payout_status payout)) = Inr True
             \<and> listFirst (\<lambda>d. transactionId d = transactionId t) (transactions_india world_queued) = Some (i, t)
             \<longrightarrow>
             transactions_india (fst (POST ?e world_queued 2000 ''body_processing'' (Some ''valid'')))
               = (transactions_india world_queued)
                   [i := payout_fields_update payout
                           (transitionState_updateData t (webhook_transition_params ?ev payout t) 2000 t)]
             \<and> state (transactions_india (fst (POST ?e world_queued 2000 ''body_processing'' (Some ''valid''))) ! i)
               = mapPayoutStatusToState (payout_status payout)
             \<and> transition_count (fst (POST ?e world_queued 2000 ''body_processing'' (Some ''valid'')))
               = Suc (transition_count world_queued)"
    by blast
  from applied fresh pe pp found differs valid first
  have once: "state (transactions_india (fst (POST ?e world_queued 2000 ''body_processing'' (Some ''valid''))) ! 0)
               = mapPayoutStatusToState (payout_status ?p)
             \<and> transition_count (fst (POST ?e world_queued 2000 ''body_processing'' (Some ''valid'')))
               = Suc (transition_count world_queued)"
    by blast
  with m c have r1: "state (transactions_india (fst (POST ?e world_queued 2000 ''body_processing'' (Some ''valid''))) ! 0)
               = ''processing''"
    "transition_count (fst (POST ?e world_queued 2000 ''body_processing'' (Some ''valid''))) = 3"
    by simp_all
  let ?f = "env_failing"
  let ?ev2 = "event_of ''payout.processed'' ''processed'' 40"
  let ?p2 = "payout_with_status ''processed''"
  let ?t2 = "transactions_india world_failed_by_webhook ! 0"
  have v2: "verifyWebhookSignature ?f ''body_processed'' ''valid'' = Some True"
    by code_simp
  have p2: "JSON_parse ?f ''body_processed'' = Some ?ev2"
    by code_simp
  have pp2: "payload_payout ?ev2 = Some ?p2"
    by code_simp
  have found2: "payout_transaction (transactions_india world_failed_by_webhook) ?p2 = Some (0, ?t2)"
    by code_simp
  have st2: "state ?t2 = ''failed''"
    by code_simp
  have nv: "isValidTransition (state ?t2) (mapPayoutStatusToState (payout_status ?p2)) \<noteq> Inr True"
    by code_simp
  have nv': "isValidTransition ''failed'' ''completed'' = Inr False"
    by code_simp
  note T2 = duplicate_delivery_applies_transition_once[OF s v2 p2, of world_failed_by_webhook 40000 90000]
  from T2 pp2 found2 nv
  have r2: "transactions_india (fst (POST ?f world_failed_by_webhook 40000 ''body_processed'' (Some ''valid'')))
       = transactions_india world_failed_by_webhook"
    by blast
  from v p none found st valid' c r1 again found2 st2 nv' r2 show ?thesis by (intro conjI)
qed

section \<open>Claim C10: deduplication by existence of the record\<close>

text \<open>
  Claim C10. For a delivery whose signature verifies and which parses to an event: if the
  store holds any event record with the derived event id, whatever its \<open>processed\<close>
  flag, the response is \<^verbatim>\<open>Event already processed\<close> and the store is unchanged. And if a
  delivery answers \<^verbatim>\<open>Event received but processing failed\<close>, it has left a record with
  that id and \<open>processed = False\<close>, and every later verified delivery whose event has
  the same id gets \<^verbatim>\<open>Event already processed\<close> with the store unchanged: the failed
  processing is not attempted again.
\<close>

theorem dedup_by_record_existence:
  assumes "sig \<noteq> []" and "verifyWebhookSignature e rawBody sig = Some True"
    and "JSON_parse e rawBody = Some ev"
  shows "(\<forall>r \<in> set (webhook_events w). eventId r = generateEventId e ev \<longrightarrow>
            POST e w now rawBody (Some sig)
              = (w, response_already_processed (generateEventId e ev)))
       \<and> (resp_message (snd (POST e w now rawBody (Some sig)))
             = Some ''Event received but processing failed'' \<longrightarrow>
            (\<exists>r \<in> set (webhook_events (fst (POST e w now rawBody (Some sig)))).
                eventId r = generateEventId e ev \<and> \<not> processed r)
            \<and> (\<forall>now' rawBody' sig' ev'.
                  sig' \<noteq> [] \<and> verifyWebhookSignature e rawBody' sig' = Some True
                  \<and> JSON_parse e rawBody' = Some ev'
                  \<and> generateEventId e ev' = generateEventId e ev \<longrightarrow>
                  POST e (fst (POST e w now rawBody (Some sig))) now' rawBody' (Some sig')
                    = (fst (POST e w now rawBody (Some sig)),
                       response_already_processed (generateEventId e ev))))"
proof (intro conjI ballI impI)
  fix r assume "r \<in> set (webhook_events w)" "eventId r = generateEventId e ev"
  then have "filter (\<lambda>r. eventId r = generateEventId e ev) (webhook_events w) \<noteq> []"
    by (auto simp add: filter_empty_conv)
  from POST_duplicate[OF assms this]
  show "POST e w now rawBody (Some sig) = (w, response_already_processed (generateEventId e ev))" .
next
  assume failed: "resp_message (snd (POST e w now rawBody (Some sig)))
             = Some ''Event received but processing failed''"
  have fresh: "filter (\<lambda>r. eventId r = generateEventId e ev) (webhook_events w) = []"
  proof (rule ccontr)
    assume "filter (\<lambda>r. eventId r = generateEventId e ev) (webhook_events w) \<noteq> []"
    from POST_duplicate[OF assms this, of now] failed show False
      by (simp add: response_already_processed_def)
  qed
  from POST_fresh(3)[OF assms fresh, of now] failed
  have unsuccessful: "\<not> pr_success (snd (fresh_processing e w now rawBody ev))"
    by (simp split: if_splits)
  let ?r = "event_record_update (snd (fresh_processing e w now rawBody ev)) now
              (fresh_record e ev rawBody now)"
  have events: "webhook_events (fst (POST e w now rawBody (Some sig))) = webhook_events w @ [?r]"
    by (rule POST_fresh(2)[OF assms fresh])
  have r: "eventId ?r = generateEventId e ev" "\<not> processed ?r"
    using unsuccessful by (simp_all add: event_record_update_fields fresh_record_def)
  from events r
  show "\<exists>r \<in> set (webhook_events (fst (POST e w now rawBody (Some sig)))).
                eventId r = generateEventId e ev \<and> \<not> processed r"
    by auto
  show "\<forall>now' rawBody' sig' ev'.
                  sig' \<noteq> [] \<and> verifyWebhookSignature e rawBody' sig' = Some True
                  \<and> JSON_parse e rawBody' = Some ev'
                  \<and> generateEventId e ev' = generateEventId e ev \<longrightarrow>
                  POST e (fst (POST e w now rawBody (Some sig))) now' rawBody' (Some sig')
                    = (fst (POST e w now rawBody (Some sig)),
                       response_already_processed (generateEventId e ev))"
  proof (intro allI impI, elim conjE)
    fix now' rawBody' sig' ev'
    assume a: "sig' \<noteq> []" "verifyWebhookSignature e rawBody' sig' = Some True"
      "JSON_parse e rawBody' = Some ev'" "generateEventId e ev' = generateEventId e ev"
    from events r(1) a(4)
    have "filter (\<lambda>r. eventId r = generateEventId e ev')
            (webhook_events (fst (POST e w now rawBody (Some sig)))) \<noteq> []"
      by simp
    from POST_duplicate[OF a(1-3) this, of now'] a(4)
    show "POST e (fst (POST e w now rawBody (Some sig))) now' rawBody' (Some sig')
                    = (fst (POST e w now rawBody (Some sig)),
                       response_already_processed (generateEventId e ev))"
      by simp
  qed
qed

theorem dedup_by_record_existence_witness:
  "resp_message (snd (POST env_failing world_failed_by_webhook 40000 ''body_processed'' (Some ''valid'')))
     = Some ''Event received but processing failed''
   \<and> map processed (webhook_events
         (fst (POST env_failing world_failed_by_webhook 40000 ''body_processed'' (Some ''valid''))))
       = [True, False]
   \<and> POST env_failing
         (fst (POST env_failing world_failed_by_webhook 40000 ''body_processed'' (Some ''valid'')))
         90000 ''body_processed'' (Some ''valid'')
       = (fst (POST env_failing world_failed_by_webhook 40000 ''body_processed'' (Some ''valid'')),
          response_already_processed
            (generateEventId env_failing (event_of ''payout.processed'' ''processed'' 40)))
   \<and> POST env_failing world_failed_by_webhook 90000 ''body_failed'' (Some ''valid'')
       = (world_failed_by_webhook,
          response_already_processed
            (generateEventId env_failing (event_of ''payout.failed'' ''failed'' 20)))"
proof -
  let ?w = "world_failed_by_webhook"
  let ?ev = "event_of ''payout.processed'' ''processed'' 40"
  have s: "''valid'' \<noteq> []" by simp
  have v: "verifyWebhookSignature env_failing ''body_processed'' ''valid'' = Some True"
    by code_simp
  have p: "JSON_parse env_failing ''body_processed'' = Some ?ev"
    by code_simp
  have m: "resp_message (snd (POST env_failing ?w 40000 ''body_processed'' (Some ''valid'')))
     = Some ''Event received but processing failed''"
    by code_simp
  have flags: "map processed (webhook_events
         (fst (POST env_failing ?w 40000 ''body_processed'' (Some ''valid'')))) = [True, False]"
    by code_simp
  from dedup_by_record_existence[OF s v p, of ?w 40000] m
  have later: "\<forall>now' rawBody' sig' ev'.
                  sig' \<noteq> [] \<and> verifyWebhookSignature env_failing rawBody' sig' = Some True
                  \<and> JSON_parse env_failing rawBody' = Some ev'
                  \<and> generateEventId env_failing ev' = generateEventId env_failing ?ev \<longrightarrow>
                  POST env_failing (fst (POST env_failing ?w 40000 ''body_processed'' (Some ''valid'')))
                     now' rawBody' (Some sig')
                    = (fst (POST env_failing ?w 40000 ''body_processed'' (Some ''valid'')),
                       response_already_processed (generateEventId env_failing ?ev))"
    by blast
  from later s v p
  have again: "POST env_failing
         (fst (POST env_failing ?w 40000 ''body_processed'' (Some ''valid'')))
         90000 ''body_processed'' (Some ''valid'')
       = (fst (POST env_failing ?w 40000 ''body_processed'' (Some ''valid'')),
          response_already_processed (generateEventId env_failing ?ev))"
    by blast
  let ?ev0 = "event_of ''payout.failed'' ''failed'' 20"
  have v0: "verifyWebhookSignature env_failing ''body_failed'' ''valid'' = Some True"
    by code_simp
  have p0: "JSON_parse env_failing ''body_failed'' = Some ?ev0"
    by code_simp
  have r0: "webhook_events ?w ! 0 \<in> set (webhook_events ?w)"
    by code_simp
  have i0: "eventId (webhook_events ?w ! 0) = generateEventId env_failing ?ev0"
    by code_simp
  from dedup_by_record_existence[OF s v0 p0, of ?w 90000] r0 i0
  have existing: "POST env_failing ?w 90000 ''body_failed'' (Some ''valid'')
       = (?w, response_already_processed (generateEventId env_failing ?ev0))"
    by blast
  from m flags again existing show ?thesis by (intro conjI)
qed

section \<open>Claim C4: the status mapping\<close>

lemma reconcile_no_valid_target:
  assumes "listFirst (\<lambda>d. transactionId d = tid) (transactions_india w) = Some (i, t)"
    and "razorpayPayoutId t = Some payoutId" and "payoutId \<noteq> []"
    and "getPayout e payoutId = Inr p"
    and "reconcile_map_status (payout_status p) \<noteq> state t"
    and "isValidTransition (state t) (reconcile_map_status (payout_status p)) \<noteq> Inr True"
  shows "fst (reconcileTransaction e w now tid) = w"
    and "\<not> rc_reconciled (snd (reconcileTransaction e w now tid))"
    and "rc_discrepancy (snd (reconcileTransaction e w now tid)) \<noteq> None"
proof -
  have c: "(\<exists>m. isValidTransition (state t) (reconcile_map_status (payout_status p)) = Inl m)
           \<or> isValidTransition (state t) (reconcile_map_status (payout_status p)) = Inr False"
    using assms(6)
    by (cases "isValidTransition (state t) (reconcile_map_status (payout_status p))") auto
  from c show "fst (reconcileTransaction e w now tid) = w"
    using assms(1-5) by (elim disjE exE) (simp_all add: reconcileTransaction_def Let_def)
  from c show "\<not> rc_reconciled (snd (reconcileTransaction e w now tid))"
    using assms(1-5)
    by (elim disjE exE) (simp_all add: reconcileTransaction_def Let_def reconcile_caught_def)
  from c show "rc_discrepancy (snd (reconcileTransaction e w now tid)) \<noteq> None"
    using assms(1-5)
    by (elim disjE exE) (simp_all add: reconcileTransaction_def Let_def reconcile_caught_def)
qed

text \<open>
  Claim C4, as stated: for a status outside the eight-word vocabulary both the webhook
  processor and the reconciler leave the stored state unchanged and flag a discrepancy.
  The webhook processor maps every unknown status to pending. Here a queued transaction
  receives a verified payout event whose entity has status \<^verbatim>\<open>on_hold\<close>: its state
  becomes pending, the response reports success, and no error is recorded on the event.
\<close>

theorem unknown_status_webhook_counterexample:
  "''on_hold'' \<notin> set (map fst spec_status_table)
   \<and> map state (transactions_india world_queued) = [''queued'']
   \<and> map state (transactions_india
         (fst (POST env_on_hold world_queued 2000 ''body_on_hold'' (Some ''valid''))))
       = [''pending'']
   \<and> resp_message (snd (POST env_on_hold world_queued 2000 ''body_on_hold'' (Some ''valid'')))
       = Some ''Event processed successfully''
   \<and> map event_error (webhook_events
         (fst (POST env_on_hold world_queued 2000 ''body_on_hold'' (Some ''valid''))))
       = [None]"
  by code_simp

text \<open>
  Claim C4, amended: on the eight statuses of the vocabulary the webhook processor and the
  reconciler map by the specification's table. For a status outside the vocabulary the
  webhook processor maps to pending, and the reconciler takes the status string itself as
  target state; the reconciler then leaves the store unchanged and reports
  \<open>reconciled = False\<close> with a discrepancy whenever that string is neither the current
  state nor a valid next state of it.
\<close>

theorem status_mapping_tables:
  "(\<forall>status \<in> set (map fst spec_status_table).
      map_of spec_status_table status = Some (mapPayoutStatusToState status)
      \<and> reconcile_map_status status = mapPayoutStatusToState status)
   \<and> (\<forall>status. status \<notin> set (map fst spec_status_table) \<longrightarrow>
        mapPayoutStatusToState status = ''pending'' \<and> reconcile_map_status status = status)
   \<and> (\<forall>i t payoutId p.
        listFirst (\<lambda>d. transactionId d = tid) (transactions_india w) = Some (i, t)
        \<and> razorpayPayoutId t = Some payoutId \<and> payoutId \<noteq> []
        \<and> getPayout e payoutId = Inr p
        \<and> payout_status p \<notin> set (map fst spec_status_table)
        \<and> payout_status p \<noteq> state t
        \<and> isValidTransition (state t) (payout_status p) \<noteq> Inr True \<longrightarrow>
        fst (reconcileTransaction e w now tid) = w
        \<and> \<not> rc_reconciled (snd (reconcileTransaction e w now tid))
        \<and> rc_discrepancy (snd (reconcileTransaction e w now tid)) \<noteq> None)"
proof (intro conjI)
  show "\<forall>status \<in> set (map fst spec_status_table).
      map_of spec_status_table status = Some (mapPayoutStatusToState status)
      \<and> reconcile_map_status status = mapPayoutStatusToState status"
    by (simp add: spec_status_table_def mapPayoutStatusToState_def reconcile_map_status_def)
  show u: "\<forall>status. status \<notin> set (map fst spec_status_table) \<longrightarrow>
        mapPayoutStatusToState status = ''pending'' \<and> reconcile_map_status status = status"
    by (simp add: spec_status_table_def mapPayoutStatusToState_def reconcile_map_status_def)
  show "\<forall>i t payoutId p.
        listFirst (\<lambda>d. transactionId d = tid) (transactions_india w) = Some (i, t)
        \<and> razorpayPayoutId t = Some payoutId \<and> payoutId \<noteq> []
        \<and> getPayout e payoutId = Inr p
        \<and> payout_status p \<notin> set (map fst spec_status_table)
        \<and> payout_status p \<noteq> state t
        \<and> isValidTransition (state t) (payout_status p) \<noteq> Inr True \<longrightarrow>
        fst (reconcileTransaction e w now tid) = w
        \<and> \<not> rc_reconciled (snd (reconcileTransaction e w now tid))
        \<and> rc_discrepancy (snd (reconcileTransaction e w now tid)) \<noteq> None"
  proof (intro allI impI, elim conjE)
    fix i t payoutId p
    assume a: "listFirst (\<lambda>d. transactionId d = tid) (transactions_india w) = Some (i, t)"
      "razorpayPayoutId t = Some payoutId" "payoutId \<noteq> []" "getPayout e payoutId = Inr p"
      "payout_status p \<notin> set (map fst spec_status_table)"
      "payout_status p \<noteq> state t"
      "isValidTransition (state t) (payout_status p) \<noteq> Inr True"
    from u a(5) have m: "reconcile_map_status (payout_status p) = payout_status p" by blast
    from a(6,7) m have b: "reconcile_map_status (payout_status p) \<noteq> state t"
      "isValidTransition (state t) (reconcile_map_status (payout_status p)) \<noteq> Inr True"
      by simp_all
    from reconcile_no_valid_target[OF a(1-4) b]
    show "fst (reconcileTransaction e w now tid) = w
        \<and> \<not> rc_reconciled (snd (reconcileTransaction e w now tid))
        \<and> rc_discrepancy (snd (reconcileTransaction e w now tid)) \<noteq> None"
      by blast
  qed
qed

theorem status_mapping_tables_witness:
  "map mapPayoutStatusToState (map fst spec_status_table) = map snd spec_status_table
   \<and> map reconcile_map_status (map fst spec_status_table) = map snd spec_status_table
   \<and> mapPayoutStatusToState ''on_hold'' = ''pending''
   \<and> reconcile_map_status ''on_hold'' = ''on_hold''
   \<and> fst (reconcileTransaction env_on_hold world_queued 5000 ''txn_1'') = world_queued
   \<and> rc_reconciled (snd (reconcileTransaction env_on_hold world_queued 5000 ''txn_1'')) = False
   \<and> rc_discrepancy (snd (reconcileTransaction env_on_hold world_queued 5000 ''txn_1''))
       = Some ''Invalid transition from queued to on_hold (Razorpay: on_hold)''"
proof -
  note T = status_mapping_tables[of "''txn_1''" world_queued env_on_hold 5000]
  have k: "''processed'' \<in> set (map fst spec_status_table)"
    by (simp add: spec_status_table_def)
  from T k have one: "reconcile_map_status ''processed'' = mapPayoutStatusToState ''processed''"
    by blast
  have tables: "map mapPayoutStatusToState (map fst spec_status_table) = map snd spec_status_table"
    "map reconcile_map_status (map fst spec_status_table) = map snd spec_status_table"
    by code_simp+
  have n: "''on_hold'' \<notin> set (map fst spec_status_table)"
    by (simp add: spec_status_table_def)
  from T n have unknown: "mapPayoutStatusToState ''on_hold'' = ''pending''"
    "reconcile_map_status ''on_hold'' = ''on_hold''"
    by blast+
  let ?t = "transactions_india world_queued ! 0"
  have f: "listFirst (\<lambda>d. transactionId d = ''txn_1'') (transactions_india world_queued) = Some (0, ?t)"
    by code_simp
  have pid: "razorpayPayoutId ?t = Some ''pout_1''" "''pout_1'' \<noteq> []"
    by code_simp+
  have g: "getPayout env_on_hold ''pout_1'' = Inr (payout_with_status ''on_hold'')"
    by code_simp
  have st: "payout_status (payout_with_status ''on_hold'') = ''on_hold''"
    by code_simp
  have ne: "payout_status (payout_with_status ''on_hold'') \<noteq> state ?t"
    by code_simp
  have nv: "isValidTransition (state ?t) (payout_status (payout_with_status ''on_hold'')) \<noteq> Inr True"
    by code_simp
  from T f pid g n st ne nv
  have r: "fst (reconcileTransaction env_on_hold world_queued 5000 ''txn_1'') = world_queued
        \<and> \<not> rc_reconciled (snd (reconcileTransaction env_on_hold world_queued 5000 ''txn_1''))"
    by (metis (no_types, lifting))
  have d: "rc_discrepancy (snd (reconcileTransaction env_on_hold world_queued 5000 ''txn_1''))
       = Some ''Invalid transition from queued to on_hold (Razorpay: on_hold)''"
    by code_simp
  from tables unknown r d show ?thesis by simp
qed

end
